theory Spec2Isabelle
  imports Complex_Main "HOL-Library.Word"
begin

section \<open>Data model of the proxy search task\<close>

text \<open>
  The embedding follows \<^verbatim>\<open>internal/proxy/task_search.go\<close>. Go's \<^verbatim>\<open>uint64\<close> and
  \<^verbatim>\<open>int64\<close> are 64-bit words: \<open>+\<close> and \<open>-\<close> wrap, \<open><\<close> on a word is the unsigned
  order (as for \<^verbatim>\<open>Timestamp\<close>), and a signed comparison reads both sides with \<open>sint\<close>.
  A \<^verbatim>\<open>float32\<close> score is only copied, never computed with, and is a real number here.
  Protobuf messages are records; a pointer that may be nil is an \<open>option\<close>; a nil slice
  is the empty list. Record fields keep their Go names; where two messages have a field
  of the same name the field carries a suffix naming its message
  (\<open>_req\<close>: milvuspb.SearchRequest, \<open>_sub\<close>: milvuspb.SubSearchRequest,
  \<open>_isub\<close>: internalpb.SubSearchRequest, \<open>_qi\<close>: planpb.QueryInfo,
  \<open>_si\<close>: SearchInfo).
\<close>

type_synonym Timestamp = "64 word"
type_synonym int64 = "64 word"
type_synonym UniqueID = "64 word"
type_synonym float32 = real
type_synonym bytes = "8 word list"
type_synonym KeyValuePairs = "(string \<times> string) list"
type_synonym addr = nat

text \<open>Go's \<^verbatim>\<open>math.MaxFloat32 = 0x1p127 * (1 + (1 - 0x1p-23))\<close>.\<close>

definition MaxFloat32 :: float32 where
  "MaxFloat32 = 2 ^ 127 * (1 + (1 - 1 / 2 ^ 23))"

datatype ConsistencyLevel =
    ConsistencyLevel_Strong
  | ConsistencyLevel_Session
  | ConsistencyLevel_Bounded
  | ConsistencyLevel_Eventually
  | ConsistencyLevel_Customized

datatype MsgType = MsgType_Undefined | MsgType_Search

datatype DslType = DslType_Dsl | DslType_BoolExprV1

datatype ErrorCode =
    ErrorCode_Success
  | ErrorCode_UnexpectedError
  | ErrorCode_NotShardLeader
  | ErrorCode_Other nat

record commonpb_Status =
  ErrorCode :: ErrorCode
  Reason :: string

text \<open>
  Errors are values. Each constructor is one way the source builds an error;
  \<open>Collaborator\<close> is an error value handed back by a collaborator whose code is outside
  this file (metadata cache, plan compiler, rerank, RPC client), named by its message.
  A formatted message keeps its format string and arguments apart.
\<close>

datatype error =
    Collaborator string
  | NilPointerPanic
  | errors_New string
  | errors_New_Sprintf string "fmt_arg list"
  | errInvalidShardLeaders
  | WrapErrAsInputErrorWhen error
  | WrapErrAsInputError error
  | WrapErrParameterInvalidMsg string "fmt_arg list"
  | WrapErrParameterInvalid int64 int64 string
  | WrapErrServiceInternal string "fmt_arg list"
  | fmt_Errorf string "fmt_arg list"
  | merr_Error "commonpb_Status option"
  | errors_Wrapf error string "fmt_arg list"
  | errors_Wrap error string
and fmt_arg = ArgInt int64 | ArgString string | ArgError error

record commonpb_MsgBase =
  MsgType :: MsgType
  MsgID :: int64
  Timestamp :: Timestamp
  SourceID :: int64
  TargetID :: int64

record internalpb_SubSearchRequest =
  Dsl_isub :: string
  PlaceholderGroup_isub :: bytes
  DslType_isub :: DslType
  SerializedExprPlan_isub :: bytes
  Nq_isub :: int64
  PartitionIDs_isub :: "int64 list"
  Topk_isub :: int64
  Offset_isub :: int64
  MetricType_isub :: string
  GroupByFieldId_isub :: int64
  GroupSize_isub :: int64
  IgnoreGrowing_isub :: bool
  AnalyzerName_isub :: string
  FieldId_isub :: int64

text \<open>
  internalpb.SearchRequest. The type parameter is the type of the \<open>Base\<close> field: the
  message base by value (\<open>commonpb_MsgBase option\<close>) where aliasing plays no role, an
  address (\<open>addr option\<close>) in the store used for the per-shard call.
\<close>

record 'b internalpb_SearchRequest =
  Base :: 'b
  DbID :: int64
  CollectionID :: int64
  PartitionIDs :: "int64 list"
  PlaceholderGroup :: bytes
  DslType :: DslType
  SerializedExprPlan :: bytes
  OutputFieldsId :: "int64 list"
  MvccTimestamp :: Timestamp
  GuaranteeTimestamp :: Timestamp
  TimeoutTimestamp :: Timestamp
  Nq :: int64
  Topk :: int64
  MetricType :: string
  IgnoreGrowing :: bool
  Username :: string
  SubReqs :: "internalpb_SubSearchRequest list"
  IsAdvanced :: bool
  Offset :: int64
  ConsistencyLevel :: ConsistencyLevel
  GroupByFieldId :: int64
  GroupSize :: int64
  FieldId :: int64
  IsIterator :: bool
  AnalyzerName :: string
  CollectionTtlTimestamps :: Timestamp

type_synonym SearchRequest = "commonpb_MsgBase option internalpb_SearchRequest"

record milvuspb_SubSearchRequest =
  Dsl_sub :: string
  PlaceholderGroup_sub :: bytes
  DslType_sub :: DslType
  SearchParams_sub :: KeyValuePairs
  Nq_sub :: int64
  ExprTemplateValues_sub :: nat

record milvuspb_SearchRequest =
  DbName_req :: string
  CollectionName_req :: string
  PartitionNames_req :: "string list"
  Dsl_req :: string
  PlaceholderGroup_req :: bytes
  OutputFields_req :: "string list"
  SearchParams_req :: KeyValuePairs
  GuaranteeTimestamp_req :: Timestamp
  Nq_req :: int64
  UseDefaultConsistency_req :: bool
  ConsistencyLevel_req :: ConsistencyLevel
  SubReqs_req :: "milvuspb_SubSearchRequest list"
  ExprTemplateValues_req :: nat
  FunctionScore_req :: "nat option"

record planpb_SearchIteratorV2Info =
  Token_info :: string
  LastBound_info :: "float32 option"

record planpb_QueryInfo =
  Topk_qi :: int64
  MetricType_qi :: string
  QueryFieldId :: int64
  GroupByFieldId_qi :: int64
  GroupSize_qi :: int64
  Hints :: string
  MaterializedViewInvolved :: bool
  SearchIteratorV2Info :: "planpb_SearchIteratorV2Info option"

text \<open>
  planpb.PlanNode: the two fields the task writes, and the compiled plan itself as an
  opaque handle.
\<close>

record planpb_PlanNode =
  OutputFieldIds :: "int64 list"
  DynamicFields :: "string list"
  plan_body :: nat

record schemapb_FieldSchema =
  Name :: string
  FieldID :: int64
  DataType :: nat

definition DataType_BinaryVector :: nat where
  "DataType_BinaryVector = 100"

record schemaInfo =
  Fields :: "schemapb_FieldSchema list"
  Functions :: "nat list"
  schemaHelper :: nat

record collectionInfo =
  consistencyLevel :: ConsistencyLevel
  updateTimestamp :: Timestamp
  collectionTTL :: "64 word"
  partitionKeyIsolation :: bool

record rankParams =
  GroupByFieldId_rank :: int64
  GroupSize_rank :: int64

record SearchInfo =
  planInfo :: planpb_QueryInfo
  offset_si :: int64
  isIterator_si :: bool
  collectionID_si :: int64

record schemapb_SearchIteratorV2Results =
  Token :: string
  LastBound :: float32

record schemapb_SearchResultData =
  NumQueries :: int64
  Scores :: "float32 list"
  Topks :: "int64 list"
  OutputFields :: "string list"
  PrimaryFieldName :: string
  SearchIteratorV2Results :: "schemapb_SearchIteratorV2Results option"

record milvuspb_SearchResults =
  Results :: "schemapb_SearchResultData option"
  CollectionName :: string
  SessionTs :: Timestamp

record internalpb_SearchResults =
  Status :: "commonpb_Status option"
  CostAggregation :: "nat option"
  MetricType_res :: string
  results_body :: nat

text \<open>
  The search task. \<open>'sr\<close> is what the embedded \<^verbatim>\<open>*internalpb.SearchRequest\<close> is: the
  request by value (type \<open>task\<close>), or its address in a store (the per-shard call).
  \<open>resultBuf\<close> is the concurrent set of shard results, \<open>None\<close> while the pointer is nil;
  its elements are pointers, so equal results from two calls are two elements, and the
  order of the list is not observable. \<open>partitionIDsSet\<close> is a set too (a list without
  repetitions). The entries of \<open>SubReqs\<close> and \<open>queryInfos\<close> are pointers that are never
  nil once written, and are records here. \<open>ctx_Deadline\<close> is the deadline of the task's
  context, \<open>ctx_User\<close> what \<^verbatim>\<open>GetCurUserFromContext\<close> reads from it.
  Not modelled: the time recorder, the coordinator and proxy clients, the channel
  timestamps and the data size (no function below reads them).
\<close>

record 'sr searchTask =
  SearchRequest :: 'sr
  result :: "milvuspb_SearchResults option"
  request :: milvuspb_SearchRequest
  collectionName :: string
  schema :: "schemaInfo option"
  needRequery :: bool
  partitionKeyMode :: bool
  enableMaterializedView :: bool
  mustUsePartitionKey :: bool
  resultSizeInsufficient :: bool
  translatedOutputFields :: "string list"
  userOutputFields :: "string list"
  userDynamicFields :: "string list"
  resultBuf :: "internalpb_SearchResults option list option"
  partitionIDsSet :: "int64 list option"
  queryInfos :: "planpb_QueryInfo list"
  functionScore :: "nat option"
  rankParams :: "rankParams option"
  isIterator :: bool
  userRequestedPkFieldExplicitly :: bool
  ctx_Deadline :: "int option"
  ctx_User :: string

type_synonym task = "SearchRequest searchTask"

section \<open>Collaborators\<close>

text \<open>
  Everything \<^verbatim>\<open>task_search.go\<close> calls and does not define: configuration constants, the
  process-wide metadata cache, helpers of the proxy package, \<^verbatim>\<open>tsoutil\<close>, \<^verbatim>\<open>typeutil\<close>,
  \<^verbatim>\<open>funcutil\<close>, the plan compiler, \<^verbatim>\<open>exprutil\<close>, \<^verbatim>\<open>proto.Marshal\<close>, the rerank and
  function packages. Each is a field of this record, a parameter of every function below;
  no theorem assumes anything about them beyond their types. A call that can fail returns
  \<open>error + 'a\<close>, and one that returns only an error returns \<open>error option\<close>.
  A \<^verbatim>\<open>time.Time\<close> is an integer (an opaque instant); an expression, a function score,
  a function executor and a list of partition keys are handles. The methods of a
  \<^verbatim>\<open>*rerank.FunctionScore\<close> take the pointer, which may be nil. The compiled plan holds a
  pointer to the query info it was compiled from, so \<open>Marshal\<close> takes the plan together
  with that query info as it is when the plan is serialised. Logging, tracing and the
  metrics are left out.
\<close>

record collaborators =
  GetNodeID :: int64
  defaultMaxSearchRequest :: nat
  enableMultipleVectorFields :: bool
  AnnsFieldKey :: string
  NQKey :: string
  BM25 :: string
  GetCollectionID :: "string \<Rightarrow> string \<Rightarrow> error + int64"
  GetCollectionSchema :: "string \<Rightarrow> string \<Rightarrow> error + schemaInfo"
  GetCollectionInfo :: "string \<Rightarrow> string \<Rightarrow> int64 \<Rightarrow> error + collectionInfo"
  isPartitionKeyMode :: "string \<Rightarrow> string \<Rightarrow> error + bool"
  getPartitionIDs :: "string \<Rightarrow> string \<Rightarrow> string list \<Rightarrow> error + int64 list"
  assignPartitionKeys :: "string \<Rightarrow> string \<Rightarrow> nat \<Rightarrow> error + string list"
  translateOutputFields ::
    "string list \<Rightarrow> schemaInfo \<Rightarrow> bool \<Rightarrow> error + (string list \<times> string list \<times> string list \<times> bool)"
  getNqFromSubSearch :: "milvuspb_SubSearchRequest \<Rightarrow> error + int64"
  getNq :: "milvuspb_SearchRequest \<Rightarrow> error + int64"
  validateNQLimit :: "int64 \<Rightarrow> error option"
  isIgnoreGrowing :: "KeyValuePairs \<Rightarrow> error + bool"
  getOutputFieldIDs :: "schemaInfo \<Rightarrow> string list \<Rightarrow> error + int64 list"
  parseGuaranteeTsFromConsistency :: "Timestamp \<Rightarrow> Timestamp \<Rightarrow> ConsistencyLevel \<Rightarrow> Timestamp"
  parseGuaranteeTs :: "Timestamp \<Rightarrow> Timestamp \<Rightarrow> Timestamp"
  parseRankParams :: "KeyValuePairs \<Rightarrow> schemaInfo \<Rightarrow> error + rankParams"
  parseSearchInfo :: "KeyValuePairs \<Rightarrow> schemaInfo \<Rightarrow> rankParams option \<Rightarrow> error + SearchInfo"
  ValidateTask :: "task \<Rightarrow> error option"
  PhysicalTime :: "Timestamp \<Rightarrow> int"
  time_Add :: "int \<Rightarrow> int64 \<Rightarrow> int"
  ComposeTSByTime :: "int \<Rightarrow> int64 \<Rightarrow> Timestamp"
  GetPartitionKeyFieldSchema :: "schemaInfo \<Rightarrow> error + schemapb_FieldSchema"
  IsFieldDataTypeSupportMaterializedView :: "schemapb_FieldSchema \<Rightarrow> bool"
  IsVectorType :: "nat \<Rightarrow> bool"
  GetVectorFieldSchemas :: "schemaInfo \<Rightarrow> schemapb_FieldSchema list"
  GetFieldByName :: "schemaInfo \<Rightarrow> string \<Rightarrow> schemapb_FieldSchema option"
  GetPkField :: "schemaInfo \<Rightarrow> error + schemapb_FieldSchema"
  GetAttrByKeyFromRepeatedKV :: "string \<Rightarrow> KeyValuePairs \<Rightarrow> error + string"
  CreateSearchPlan :: "nat \<Rightarrow> string \<Rightarrow> string \<Rightarrow> planpb_QueryInfo \<Rightarrow> nat \<Rightarrow> error + planpb_PlanNode"
  ParseExprFromPlan :: "planpb_PlanNode \<Rightarrow> error + nat"
  ValidatePartitionKeyIsolation :: "nat \<Rightarrow> error option"
  ParseKeys :: "nat \<Rightarrow> nat"
  Marshal :: "planpb_PlanNode \<Rightarrow> planpb_QueryInfo \<Rightarrow> error + bytes"
  NewFunctionScore :: "schemaInfo \<Rightarrow> nat \<Rightarrow> error + nat option"
  NewFunctionScoreWithlegacy :: "schemaInfo \<Rightarrow> KeyValuePairs \<Rightarrow> error + nat option"
  GetAllInputFieldNames :: "nat option \<Rightarrow> string list"
  GetAllInputFieldIDs :: "nat option \<Rightarrow> int64 list"
  IsSupportGroup :: "nat option \<Rightarrow> bool"
  RerankName :: "nat option \<Rightarrow> string"
  HasNonBM25Functions :: "nat list \<Rightarrow> int64 list \<Rightarrow> bool"
  NewFunctionExecutor :: "schemaInfo \<Rightarrow> error + nat"
  ProcessSearch :: "nat \<Rightarrow> SearchRequest \<Rightarrow> error + SearchRequest"

section \<open>PreExecute\<close>

text \<open>
  A phase of the task returns the error, or the task as the phase leaves it. The state
  of a task whose phase failed is not modelled: the scheduler answers the request with
  the error and drops the task.
\<close>

subsection \<open>checkNq\<close>

text \<open>
  The loop of \<^verbatim>\<open>checkNq\<close> over the sub-requests, from the current \<open>nq\<close>. It writes each
  sub-request's \<open>Nq\<close> and returns the final \<open>nq\<close> with the sub-requests as written.
\<close>

fun checkNq_loop ::
  "collaborators \<Rightarrow> int64 \<Rightarrow> milvuspb_SubSearchRequest list
     \<Rightarrow> error + (int64 \<times> milvuspb_SubSearchRequest list)" where
  "checkNq_loop env nq [] = Inr (nq, [])"
| "checkNq_loop env nq (req # reqs) =
     (case getNqFromSubSearch env req of
        Inl err \<Rightarrow> Inl err
      | Inr subNq \<Rightarrow>
          if nq = 0 then
            (case checkNq_loop env subNq reqs of
               Inl err \<Rightarrow> Inl err
             | Inr (nq', reqs') \<Rightarrow> Inr (nq', req\<lparr>Nq_sub := subNq\<rparr> # reqs'))
          else if subNq \<noteq> nq then
            Inl (WrapErrParameterInvalid nq subNq ''sub search request nq should be the same'')
          else
            (case checkNq_loop env nq reqs of
               Inl err \<Rightarrow> Inl err
             | Inr (nq', reqs') \<Rightarrow> Inr (nq', req\<lparr>Nq_sub := subNq\<rparr> # reqs')))"

definition checkNq :: "collaborators \<Rightarrow> task \<Rightarrow> error + (int64 \<times> task)" where
  "checkNq env t =
     (case (if IsAdvanced (SearchRequest t) then
              (case checkNq_loop env (Nq_req (request t)) (SubReqs_req (request t)) of
                 Inl err \<Rightarrow> Inl err
               | Inr (nq, reqs) \<Rightarrow>
                   Inr (nq, t\<lparr>request := (request t)\<lparr>SubReqs_req := reqs, Nq_req := nq\<rparr>\<rparr>))
            else
              (case getNq env (request t) of
                 Inl err \<Rightarrow> Inl err
               | Inr nq \<Rightarrow> Inr (nq, t\<lparr>request := (request t)\<lparr>Nq_req := nq\<rparr>\<rparr>))) of
        Inl err \<Rightarrow> Inl err
      | Inr (nq, t') \<Rightarrow>
          (case validateNQLimit env nq of
             Some err \<Rightarrow>
               Inl (fmt_Errorf ''%s [%d] is invalid, %w''
                      [ArgString (NQKey env), ArgInt nq, ArgError err])
           | None \<Rightarrow> Inr (nq, t')))"

subsection \<open>Plan generation and partition routing\<close>

text \<open>
  Lines 609 to 620 of \<^verbatim>\<open>tryGeneratePlan\<close>: the name of the vector field to search, from
  the parameters or, when they give none, the collection's vector field.
\<close>

definition tryGeneratePlan_annsField ::
  "collaborators \<Rightarrow> schemaInfo \<Rightarrow> KeyValuePairs \<Rightarrow> error + string" where
  "tryGeneratePlan_annsField env sch params =
     (case (case GetAttrByKeyFromRepeatedKV env (AnnsFieldKey env) params of
              Inl err \<Rightarrow> None
            | Inr name \<Rightarrow> if length name = 0 then None else Some name) of
        Some name \<Rightarrow> Inr name
      | None \<Rightarrow>
          (let vecFields = GetVectorFieldSchemas env sch in
           if length vecFields = 0 then
             Inl (errors_New (AnnsFieldKey env @ '' not found in schema''))
           else if enableMultipleVectorFields env \<and> length vecFields > 1 then
             Inl (errors_New
               ''multiple anns_fields exist, please specify a anns_field in search_params'')
           else Inr (Name (hd vecFields))))"

text \<open>
  \<^verbatim>\<open>tryGeneratePlan\<close> reads the task (its schema, rank parameters and collection id) and
  does not write it. On a nil \<^verbatim>\<open>annField\<close> the getters give the zero value.
\<close>

definition tryGeneratePlan ::
  "collaborators \<Rightarrow> task \<Rightarrow> KeyValuePairs \<Rightarrow> string \<Rightarrow> nat
     \<Rightarrow> error + (planpb_PlanNode \<times> planpb_QueryInfo \<times> int64 \<times> bool)" where
  "tryGeneratePlan env t params dsl exprTemplateValues =
     (case schema t of
        None \<Rightarrow> Inl NilPointerPanic
      | Some sch \<Rightarrow>
          (case tryGeneratePlan_annsField env sch params of
             Inl err \<Rightarrow> Inl err
           | Inr annsFieldName \<Rightarrow>
               (case parseSearchInfo env params sch (rankParams t) of
                  Inl err \<Rightarrow> Inl err
                | Inr searchInfo \<Rightarrow>
                    if 0 < sint (collectionID_si searchInfo)
                       \<and> collectionID_si searchInfo \<noteq> CollectionID (SearchRequest t) then
                      Inl (WrapErrParameterInvalidMsg
                        (''collection id:%d in the request is not consistent to that in the search context,''
                           @ ''alias or database may have been changed: %d'')
                        [ArgInt (collectionID_si searchInfo), ArgInt (CollectionID (SearchRequest t))])
                    else
                      (let annField = GetFieldByName env sch annsFieldName in
                       if GroupByFieldId_qi (planInfo searchInfo) \<noteq> - 1
                          \<and> (case annField of None \<Rightarrow> 0 | Some f \<Rightarrow> DataType f)
                              = DataType_BinaryVector then
                         Inl (errors_New
                           ''not support search_group_by operation based on binary vector column'')
                       else
                         (let info = (planInfo searchInfo)
                                \<lparr>QueryFieldId := (case annField of None \<Rightarrow> 0 | Some f \<Rightarrow> FieldID f)\<rparr> in
                          case CreateSearchPlan env (schemaHelper sch) dsl annsFieldName info
                                 exprTemplateValues of
                            Inl planErr \<Rightarrow>
                              Inl (WrapErrParameterInvalidMsg ''failed to create query plan: %v''
                                     [ArgError planErr])
                          | Inr plan \<Rightarrow>
                              Inr (plan, info, offset_si searchInfo, isIterator_si searchInfo))))))"

definition tryParsePartitionIDsFromPlan ::
  "collaborators \<Rightarrow> task \<Rightarrow> planpb_PlanNode \<Rightarrow> error + int64 list" where
  "tryParsePartitionIDsFromPlan env t plan =
     (case ParseExprFromPlan env plan of
        Inl err \<Rightarrow> Inl err
      | Inr expr \<Rightarrow>
          (case assignPartitionKeys env (DbName_req (request t)) (collectionName t)
                  (ParseKeys env expr) of
             Inl err \<Rightarrow> Inl err
           | Inr hashedPartitionNames \<Rightarrow>
               if length hashedPartitionNames > 0 then
                 getPartitionIDs env (DbName_req (request t)) (collectionName t)
                   hashedPartitionNames
               else Inr []))"

text \<open>
  \<^verbatim>\<open>setQueryInfoIfMvEnable\<close> returns the error, or the query info as it leaves it. When
  \<^verbatim>\<open>GetCollectionInfo\<close> fails, the source returns the variable \<^verbatim>\<open>err\<close>, which is nil at
  that point (not \<^verbatim>\<open>colErr\<close>): the function returns no error and the query info is
  unchanged.
\<close>

definition setQueryInfoIfMvEnable ::
  "collaborators \<Rightarrow> planpb_QueryInfo \<Rightarrow> task \<Rightarrow> planpb_PlanNode \<Rightarrow> error + planpb_QueryInfo" where
  "setQueryInfoIfMvEnable env queryInfo t plan =
     (if enableMaterializedView t then
        (case schema t of
           None \<Rightarrow> Inl NilPointerPanic
         | Some sch \<Rightarrow>
             (case GetPartitionKeyFieldSchema env sch of
                Inl err \<Rightarrow> Inl err
              | Inr partitionKeyFieldSchema \<Rightarrow>
                  if IsFieldDataTypeSupportMaterializedView env partitionKeyFieldSchema then
                    (case GetCollectionInfo env (DbName_req (request t)) (collectionName t)
                            (CollectionID (SearchRequest t)) of
                       Inl colErr \<Rightarrow> Inr queryInfo
                     | Inr collInfo \<Rightarrow>
                         if partitionKeyIsolation collInfo then
                           (case ParseExprFromPlan env plan of
                              Inl err \<Rightarrow> Inl err
                            | Inr expr \<Rightarrow>
                                (case ValidatePartitionKeyIsolation env expr of
                                   Some err \<Rightarrow> Inl err
                                 | None \<Rightarrow>
                                     Inr (queryInfo\<lparr>Hints := ''disable'',
                                                     MaterializedViewInvolved := True\<rparr>)))
                         else Inr (queryInfo\<lparr>MaterializedViewInvolved := True\<rparr>))
                  else
                    Inl (errors_New
                      ''partition key field data type is not supported in materialized view'')))
      else Inr queryInfo)"

subsection \<open>Request composition\<close>

text \<open>
  One round of the loop of \<^verbatim>\<open>initAdvancedSearchRequest\<close> (lines 397 to 463): the internal
  sub-request of a leg, its query info and the partition ids the leg adds to
  \<^verbatim>\<open>partitionIDsSet\<close>. \<open>t\<close> is the task at the loop's entry; a round reads the task and
  writes only \<^verbatim>\<open>SubReqs[index]\<close>, \<^verbatim>\<open>queryInfos[index]\<close> and the set, which no round reads.
  \<open>rp\<close> is \<^verbatim>\<open>t.rankParams\<close>, just parsed.
\<close>

definition initAdvancedSearchRequest_leg ::
  "collaborators \<Rightarrow> task \<Rightarrow> rankParams \<Rightarrow> milvuspb_SubSearchRequest
     \<Rightarrow> error + (internalpb_SubSearchRequest \<times> planpb_QueryInfo \<times> int64 list)" where
  "initAdvancedSearchRequest_leg env t rp subReq =
     (case tryGeneratePlan env t (SearchParams_sub subReq) (Dsl_sub subReq)
             (ExprTemplateValues_sub subReq) of
        Inl err \<Rightarrow> Inl err
      | Inr (plan, queryInfo, offset, isIter) \<Rightarrow>
          (case (if IgnoreGrowing (SearchRequest t) then Inr True
                 else isIgnoreGrowing env (SearchParams_sub subReq)) of
             Inl err \<Rightarrow> Inl err
           | Inr ignoreGrowing \<Rightarrow>
               (let internalSubReq =
                      \<lparr>Dsl_isub = Dsl_sub subReq,
                       PlaceholderGroup_isub = PlaceholderGroup_sub subReq,
                       DslType_isub = DslType_sub subReq,
                       SerializedExprPlan_isub = [],
                       Nq_isub = Nq_sub subReq,
                       PartitionIDs_isub = [],
                       Topk_isub = Topk_qi queryInfo,
                       Offset_isub = offset,
                       MetricType_isub = MetricType_qi queryInfo,
                       GroupByFieldId_isub = GroupByFieldId_rank rp,
                       GroupSize_isub = GroupSize_rank rp,
                       IgnoreGrowing_isub = ignoreGrowing,
                       AnalyzerName_isub =
                         (case GetAttrByKeyFromRepeatedKV env ''analyzer_name''
                                 (SearchParams_sub subReq) of
                            Inl err \<Rightarrow> []
                          | Inr analyzer \<Rightarrow> analyzer),
                       FieldId_isub = QueryFieldId queryInfo\<rparr>
                in case (if partitionKeyMode t then
                           (case setQueryInfoIfMvEnable env queryInfo t plan of
                              Inl mvErr \<Rightarrow> Inl mvErr
                            | Inr queryInfo' \<Rightarrow>
                                (case tryParsePartitionIDsFromPlan env t plan of
                                   Inl err2 \<Rightarrow> Inl err2
                                 | Inr partitionIDs \<Rightarrow> Inr (queryInfo', partitionIDs, partitionIDs)))
                         else Inr (queryInfo, PartitionIDs (SearchRequest t), [])) of
                     Inl err \<Rightarrow> Inl err
                   | Inr (queryInfo', legPartitionIDs, upserted) \<Rightarrow>
                       (case Marshal env (plan\<lparr>OutputFieldIds := [], DynamicFields := []\<rparr>)
                               queryInfo' of
                          Inl err \<Rightarrow> Inl err
                        | Inr serialized \<Rightarrow>
                            Inr (internalSubReq\<lparr>PartitionIDs_isub := legPartitionIDs,
                                                 SerializedExprPlan_isub := serialized\<rparr>,
                                 queryInfo', upserted)))))"

text \<open>
  The loop: the internal sub-requests and the query infos in the order of the legs, and
  the partition ids collected (a set: \<open>List.union\<close> adds what is not yet there).
\<close>

fun initAdvancedSearchRequest_loop ::
  "collaborators \<Rightarrow> task \<Rightarrow> rankParams \<Rightarrow> milvuspb_SubSearchRequest list
     \<Rightarrow> error + (internalpb_SubSearchRequest list \<times> planpb_QueryInfo list \<times> int64 list)" where
  "initAdvancedSearchRequest_loop env t rp [] = Inr ([], [], [])"
| "initAdvancedSearchRequest_loop env t rp (subReq # rest) =
     (case initAdvancedSearchRequest_leg env t rp subReq of
        Inl err \<Rightarrow> Inl err
      | Inr (internalSubReq, queryInfo, upserted) \<Rightarrow>
          (case initAdvancedSearchRequest_loop env t rp rest of
             Inl err \<Rightarrow> Inl err
           | Inr (subReqs, infos, ids) \<Rightarrow>
               Inr (internalSubReq # subReqs, queryInfo # infos, List.union upserted ids)))"

text \<open>
  The call of the function executor (lines 469 to 481 and 587 to 599): it may rewrite the
  internal request in place.
\<close>

definition callFunctionExecutor ::
  "collaborators \<Rightarrow> schemaInfo \<Rightarrow> int64 list \<Rightarrow> task \<Rightarrow> error + task" where
  "callFunctionExecutor env sch queryFieldIDs t =
     (if HasNonBM25Functions env (Functions sch) queryFieldIDs then
        (case NewFunctionExecutor env sch of
           Inl err \<Rightarrow> Inl err
         | Inr exec \<Rightarrow>
             (case ProcessSearch env exec (SearchRequest t) of
                Inl err \<Rightarrow> Inl err
              | Inr sr \<Rightarrow> Inr (t\<lparr>SearchRequest := sr\<rparr>)))
      else Inr t)"

definition initAdvancedSearchRequest :: "collaborators \<Rightarrow> task \<Rightarrow> error + task" where
  "initAdvancedSearchRequest env t =
     (case schema t of
        None \<Rightarrow> Inl NilPointerPanic
      | Some sch \<Rightarrow>
          (case (case FunctionScore_req (request t) of
                   Some fs \<Rightarrow> NewFunctionScore env sch fs
                 | None \<Rightarrow> NewFunctionScoreWithlegacy env sch (SearchParams_req (request t))) of
             Inl err \<Rightarrow> Inl err
           | Inr fscore \<Rightarrow>
               (case parseRankParams env (SearchParams_req (request t)) sch of
                  Inl err \<Rightarrow> Inl err
                | Inr rp \<Rightarrow>
                    if \<not> IsSupportGroup env fscore \<and> 0 \<le> sint (GroupByFieldId_rank rp) then
                      Inl (WrapErrParameterInvalidMsg
                             ''Current rerank does not support grouping search'' [])
                    else
                      (let t1 = t\<lparr>partitionIDsSet := Some [],
                                   functionScore := fscore,
                                   needRequery :=
                                     (length (OutputFields_req (request t)) > 0
                                      \<or> length (GetAllInputFieldNames env fscore) > 0),
                                   rankParams := Some rp\<rparr>
                       in case initAdvancedSearchRequest_loop env t1 rp (SubReqs_req (request t)) of
                            Inl err \<Rightarrow> Inl err
                          | Inr (subReqs, infos, ids) \<Rightarrow>
                              (case callFunctionExecutor env sch (map FieldId_isub subReqs)
                                      (t1\<lparr>SearchRequest := (SearchRequest t1)\<lparr>SubReqs := subReqs\<rparr>,
                                          queryInfos := infos,
                                          partitionIDsSet := Some ids\<rparr>) of
                                 Inl err \<Rightarrow> Inl err
                               | Inr t2 \<Rightarrow>
                                   (let sr = (SearchRequest t2)
                                          \<lparr>GroupByFieldId := GroupByFieldId_rank rp,
                                           GroupSize := GroupSize_rank rp\<rparr>
                                    in Inr (t2\<lparr>SearchRequest :=
                                               (if partitionKeyMode t2 then sr\<lparr>PartitionIDs := ids\<rparr>
                                                else sr)\<rparr>)))))))"

text \<open>
  Lines 547 to 563 of \<^verbatim>\<open>initSearchRequest\<close>: whether a requery is needed, and the output
  columns of the plan sent to the shards. \<^verbatim>\<open>lo.Filter\<close> and \<^verbatim>\<open>lo.Contains\<close> are the
  filter of a list and the membership in one; \<^verbatim>\<open>allFieldIDs.Collect()\<close> lists a set in
  no particular order.
\<close>

definition initSearchRequest_outputs ::
  "collaborators \<Rightarrow> task \<Rightarrow> schemaInfo \<Rightarrow> planpb_PlanNode \<Rightarrow> error + (bool \<times> planpb_PlanNode)" where
  "initSearchRequest_outputs env t sch plan =
     (let vectorOutputFields =
            filter (\<lambda>field. Name field \<in> set (translatedOutputFields t)
                             \<and> IsVectorType env (DataType field)) (Fields sch)
      in if length vectorOutputFields > 0 then
           Inr (True, plan\<lparr>OutputFieldIds := GetAllInputFieldIDs env (functionScore t)\<rparr>)
         else
           (case GetPkField env sch of
              Inl err \<Rightarrow> Inl err
            | Inr primaryFieldSchema \<Rightarrow>
                Inr (False,
                     plan\<lparr>OutputFieldIds :=
                            remdups (OutputFieldsId (SearchRequest t)
                                     @ GetAllInputFieldIDs env (functionScore t)
                                     @ [FieldID primaryFieldSchema]),
                          DynamicFields := userDynamicFields t\<rparr>)))"

definition initSearchRequest :: "collaborators \<Rightarrow> task \<Rightarrow> error + task" where
  "initSearchRequest env t =
     (case tryGeneratePlan env t (SearchParams_req (request t)) (Dsl_req (request t))
             (ExprTemplateValues_req (request t)) of
        Inl err \<Rightarrow> Inl err
      | Inr (plan, queryInfo, offset, isIter) \<Rightarrow>
          (case schema t of
             None \<Rightarrow> Inl NilPointerPanic
           | Some sch \<Rightarrow>
               (case (case FunctionScore_req (request t) of
                        None \<Rightarrow> Inr t
                      | Some fs \<Rightarrow>
                          (case NewFunctionScore env sch fs of
                             Inl err \<Rightarrow> Inl err
                           | Inr fscore \<Rightarrow>
                               if \<not> IsSupportGroup env fscore
                                  \<and> 0 < sint (GroupByFieldId_qi queryInfo) then
                                 Inl (WrapErrParameterInvalidMsg
                                        ''Rerank %s does not support grouping search''
                                        [ArgString (RerankName env fscore)])
                               else Inr (t\<lparr>functionScore := fscore\<rparr>))) of
                  Inl err \<Rightarrow> Inl err
                | Inr t1 \<Rightarrow>
                    (let t2 = t1\<lparr>isIterator := isIter,
                                 SearchRequest := (SearchRequest t1)
                                   \<lparr>Offset := offset, FieldId := QueryFieldId queryInfo\<rparr>\<rparr>
                     in case (if partitionKeyMode t2 then
                                (case setQueryInfoIfMvEnable env queryInfo t2 plan of
                                   Inl mvErr \<Rightarrow> Inl mvErr
                                 | Inr queryInfo' \<Rightarrow>
                                     (case tryParsePartitionIDsFromPlan env t2 plan of
                                        Inl err2 \<Rightarrow> Inl err2
                                      | Inr partitionIDs \<Rightarrow>
                                          Inr (queryInfo',
                                               if length partitionIDs > 0 then
                                                 t2\<lparr>SearchRequest := (SearchRequest t2)
                                                      \<lparr>PartitionIDs := partitionIDs\<rparr>\<rparr>
                                               else t2)))
                              else Inr (queryInfo, t2)) of
                          Inl err \<Rightarrow> Inl err
                        | Inr (queryInfo', t3) \<Rightarrow>
                            (case initSearchRequest_outputs env t3 sch plan of
                               Inl err \<Rightarrow> Inl err
                             | Inr (requery, plan') \<Rightarrow>
                                 (case Marshal env plan' queryInfo' of
                                    Inl err \<Rightarrow> Inl err
                                  | Inr serialized \<Rightarrow>
                                      (let sr = (SearchRequest t3)
                                             \<lparr>SerializedExprPlan := serialized,
                                              PlaceholderGroup := PlaceholderGroup_req (request t3),
                                              Topk := Topk_qi queryInfo',
                                              MetricType := MetricType_qi queryInfo',
                                              DslType := DslType_BoolExprV1,
                                              GroupByFieldId := GroupByFieldId_qi queryInfo',
                                              GroupSize := GroupSize_qi queryInfo'\<rparr>;
                                           sr' = (if MetricType sr = BM25 env then
                                                    (case GetAttrByKeyFromRepeatedKV env ''analyzer_name''
                                                            (SearchParams_req (request t3)) of
                                                       Inl err \<Rightarrow> sr
                                                     | Inr analyzer \<Rightarrow> sr\<lparr>AnalyzerName := analyzer\<rparr>)
                                                  else sr)
                                       in callFunctionExecutor env sch [QueryFieldId queryInfo']
                                            (t3\<lparr>needRequery := requery,
                                                queryInfos := queryInfos t3 @ [queryInfo'],
                                                SearchRequest := sr'\<rparr>))))))))"

subsection \<open>The phases of PreExecute\<close>

text \<open>\<^verbatim>\<open>t.BeginTs()\<close> reads \<^verbatim>\<open>t.Base.Timestamp\<close>: a panic on a nil base.\<close>

definition BeginTs :: "task \<Rightarrow> error + Timestamp" where
  "BeginTs t =
     (case Base (SearchRequest t) of None \<Rightarrow> Inl NilPointerPanic | Some b \<Rightarrow> Inr (Timestamp b))"

text \<open>\<^verbatim>\<open>t.GetBase().GetTimestamp()\<close>: the getters give 0 on a nil base.\<close>

definition GetTimestamp :: "commonpb_MsgBase option \<Rightarrow> Timestamp" where
  "GetTimestamp b = (case b of None \<Rightarrow> 0 | Some base \<Rightarrow> Timestamp base)"

text \<open>Lines 131 to 179: collection, schema, partitions and output fields.\<close>

definition PreExecute_resolve :: "collaborators \<Rightarrow> task \<Rightarrow> error + task" where
  "PreExecute_resolve env t =
     (case Base (SearchRequest t) of
        None \<Rightarrow> Inl NilPointerPanic
      | Some base \<Rightarrow>
          (let db = DbName_req (request t);
               collName = CollectionName_req (request t);
               t1 = t\<lparr>SearchRequest := (SearchRequest t)
                        \<lparr>IsAdvanced := (length (SubReqs_req (request t)) > 0),
                         Base := Some (base\<lparr>MsgType := MsgType_Search, SourceID := GetNodeID env\<rparr>)\<rparr>,
                      collectionName := collName\<rparr>
           in case GetCollectionID env db collName of
                Inl err \<Rightarrow> Inl (WrapErrAsInputErrorWhen err)
              | Inr collID \<Rightarrow>
                  (case GetCollectionSchema env db collName of
                     Inl err \<Rightarrow> Inl err
                   | Inr sch \<Rightarrow>
                       (case isPartitionKeyMode env db collName of
                          Inl err \<Rightarrow> Inl err
                        | Inr pkMode \<Rightarrow>
                            (let t2 = t1\<lparr>SearchRequest := (SearchRequest t1)
                                           \<lparr>DbID := 0, CollectionID := collID\<rparr>,
                                         schema := Some sch,
                                         partitionKeyMode := pkMode\<rparr>
                             in if pkMode \<and> length (PartitionNames_req (request t)) \<noteq> 0 then
                                  Inl (errors_New
                                    ''not support manually specifying the partition names if partition key mode is used'')
                                else if mustUsePartitionKey t \<and> \<not> pkMode then
                                  Inl (WrapErrAsInputError (WrapErrParameterInvalidMsg
                                    (''must use partition key in the search request ''
                                       @ ''because the mustUsePartitionKey config is true'') []))
                                else
                                  (case (if \<not> pkMode \<and> length (PartitionNames_req (request t)) > 0 then
                                           (case getPartitionIDs env db collName
                                                   (PartitionNames_req (request t)) of
                                              Inl err \<Rightarrow> Inl err
                                            | Inr ids \<Rightarrow>
                                                Inr (t2\<lparr>SearchRequest := (SearchRequest t2)
                                                          \<lparr>PartitionIDs := ids\<rparr>\<rparr>))
                                         else Inr t2) of
                                     Inl err \<Rightarrow> Inl err
                                   | Inr t3 \<Rightarrow>
                                       (case translateOutputFields env (OutputFields_req (request t))
                                               sch True of
                                          Inl err \<Rightarrow> Inl err
                                        | Inr (translated, userOutput, userDynamic, pkExplicit) \<Rightarrow>
                                            Inr (t3\<lparr>translatedOutputFields := translated,
                                                    userOutputFields := userOutput,
                                                    userDynamicFields := userDynamic,
                                                    userRequestedPkFieldExplicitly := pkExplicit\<rparr>))))))))"

text \<open>
  Lines 181 to 215: the limit on sub-requests, \<^verbatim>\<open>checkNq\<close>, and the composition of the
  internal request.
\<close>

definition PreExecute_compose :: "collaborators \<Rightarrow> task \<Rightarrow> error + task" where
  "PreExecute_compose env t =
     (if IsAdvanced (SearchRequest t)
         \<and> length (SubReqs_req (request t)) > defaultMaxSearchRequest env then
        Inl (errors_New_Sprintf ''maximum of ann search requests is %d''
               [ArgInt (of_nat (defaultMaxSearchRequest env))])
      else
        (case checkNq env t of
           Inl err \<Rightarrow> Inl err
         | Inr (nq, t1) \<Rightarrow>
             (case isIgnoreGrowing env (SearchParams_req (request t1)) of
                Inl err \<Rightarrow> Inl err
              | Inr ignoreGrowing \<Rightarrow>
                  (case schema t1 of
                     None \<Rightarrow> Inl NilPointerPanic
                   | Some sch \<Rightarrow>
                       (case getOutputFieldIDs env sch (translatedOutputFields t1) of
                          Inl err \<Rightarrow> Inl err
                        | Inr outputFieldIDs \<Rightarrow>
                            (let t2 = t1\<lparr>SearchRequest := (SearchRequest t1)
                                          \<lparr>Nq := nq, IgnoreGrowing := ignoreGrowing,
                                           OutputFieldsId := outputFieldIDs\<rparr>\<rparr>
                             in if IsAdvanced (SearchRequest t2) then initAdvancedSearchRequest env t2
                                else initSearchRequest env t2))))))"

text \<open>
  Lines 223 to 238: the guarantee timestamp resolved from the consistency level, the
  collection's default level when the request asks for it.
\<close>

definition resolveGuaranteeTs ::
  "collaborators \<Rightarrow> milvuspb_SearchRequest \<Rightarrow> Timestamp \<Rightarrow> collectionInfo \<Rightarrow> Timestamp" where
  "resolveGuaranteeTs env req beginTs info =
     (if UseDefaultConsistency_req req then
        parseGuaranteeTsFromConsistency env (GuaranteeTimestamp_req req) beginTs
          (consistencyLevel info)
      else if ConsistencyLevel_req req = ConsistencyLevel_Strong \<and> GuaranteeTimestamp_req req > 0 then
        parseGuaranteeTs env (GuaranteeTimestamp_req req) beginTs
      else
        parseGuaranteeTsFromConsistency env (GuaranteeTimestamp_req req) beginTs
          (ConsistencyLevel_req req))"

text \<open>Lines 217 to 253: the collection info and the timestamps of the read.\<close>

definition PreExecute_guarantee :: "collaborators \<Rightarrow> task \<Rightarrow> error + (task \<times> collectionInfo)" where
  "PreExecute_guarantee env t =
     (case GetCollectionInfo env (DbName_req (request t)) (CollectionName_req (request t))
             (CollectionID (SearchRequest t)) of
        Inl err2 \<Rightarrow> Inl err2
      | Inr info \<Rightarrow>
          (case BeginTs t of
             Inl panic \<Rightarrow> Inl panic
           | Inr beginTs \<Rightarrow>
               (let resolved = resolveGuaranteeTs env (request t) beginTs info;
                    guaranteeTs = (if updateTimestamp info > resolved then updateTimestamp info
                                   else resolved);
                    sr1 = (SearchRequest t)
                      \<lparr>GuaranteeTimestamp := guaranteeTs,
                       ConsistencyLevel :=
                         (if UseDefaultConsistency_req (request t) then consistencyLevel info
                          else ConsistencyLevel_req (request t))\<rparr>;
                    sr2 = (if isIterator t \<and> GuaranteeTimestamp_req (request t) > 0 then
                             sr1\<lparr>MvccTimestamp := GuaranteeTimestamp_req (request t),
                                 GuaranteeTimestamp := GuaranteeTimestamp_req (request t)\<rparr>
                           else sr1)
                in Inr (t\<lparr>SearchRequest := sr2\<lparr>IsIterator := isIterator t\<rparr>\<rparr>, info))))"

text \<open>
  The expiry cutoff of lines 265 to 267, from the timestamp \<open>ts\<close> of the task's base and
  the collection's TTL: \<^verbatim>\<open>-time.Duration(ttl)\<close> is the negation of an \<^verbatim>\<open>int64\<close>.
\<close>

definition ttlCutoff :: "collaborators \<Rightarrow> Timestamp \<Rightarrow> 64 word \<Rightarrow> Timestamp" where
  "ttlCutoff env ts ttl = ComposeTSByTime env (time_Add env (PhysicalTime env ts) (- ttl)) 0"

text \<open>Lines 255 to 272: the timeout, the user name and the TTL cutoff.\<close>

definition PreExecute_ttl :: "collaborators \<Rightarrow> collectionInfo \<Rightarrow> task \<Rightarrow> error + task" where
  "PreExecute_ttl env info t =
     (let sr1 = (case ctx_Deadline t of
                   None \<Rightarrow> SearchRequest t
                 | Some deadline \<Rightarrow>
                     (SearchRequest t)\<lparr>TimeoutTimestamp := ComposeTSByTime env deadline 0\<rparr>);
          sr2 = (if ctx_User t \<noteq> [] then sr1\<lparr>Username := ctx_User t\<rparr> else sr1)
      in if collectionTTL info \<noteq> 0 then
           (let ts = GetTimestamp (Base sr2);
                cutoff = ttlCutoff env ts (collectionTTL info)
            in if cutoff > ts then
                 Inl (WrapErrServiceInternal
                        ''ttl timestamp overflow, base timestamp: %d, ttl duration %v''
                        [ArgInt ts, ArgInt (collectionTTL info)])
               else Inr (t\<lparr>SearchRequest := sr2\<lparr>CollectionTtlTimestamps := cutoff\<rparr>\<rparr>))
         else Inr (t\<lparr>SearchRequest := sr2\<rparr>))"

text \<open>Lines 274 to 286: the result buffer and the validation of the task.\<close>

definition PreExecute_finish :: "collaborators \<Rightarrow> task \<Rightarrow> error + task" where
  "PreExecute_finish env t =
     (let t1 = t\<lparr>resultBuf := Some []\<rparr>
      in case ValidateTask env t1 of Some err \<Rightarrow> Inl err | None \<Rightarrow> Inr t1)"

definition PreExecute :: "collaborators \<Rightarrow> task \<Rightarrow> error + task" where
  "PreExecute env t =
     (case PreExecute_resolve env t of
        Inl err \<Rightarrow> Inl err
      | Inr t1 \<Rightarrow>
          (case PreExecute_compose env t1 of
             Inl err \<Rightarrow> Inl err
           | Inr t2 \<Rightarrow>
               (case PreExecute_guarantee env t2 of
                  Inl err \<Rightarrow> Inl err
                | Inr (t3, info) \<Rightarrow>
                    (case PreExecute_ttl env info t3 of
                       Inl err \<Rightarrow> Inl err
                     | Inr t4 \<Rightarrow> PreExecute_finish env t4))))"

section \<open>Result post-processing\<close>

subsection \<open>fillResult\<close>

text \<open>
  The loop of \<^verbatim>\<open>fillResult\<close> over \<^verbatim>\<open>t.result.Results.Topks\<close>: it stops at the first
  count below the limit. \<^verbatim>\<open>topk < limit\<close> compares two \<^verbatim>\<open>int64\<close>.
\<close>

fun fillResult_loop :: "int64 \<Rightarrow> int64 list \<Rightarrow> bool" where
  "fillResult_loop limit [] = False"
| "fillResult_loop limit (topk # rest) =
     (if sint topk < sint limit then True else fillResult_loop limit rest)"

text \<open>
  \<^verbatim>\<open>fillResult\<close> dereferences \<^verbatim>\<open>t.result\<close> and \<^verbatim>\<open>t.result.Results\<close>: a nil pointer
  there is a panic.
\<close>

definition fillResult :: "task \<Rightarrow> error + task" where
  "fillResult t =
     (let limit = Topk (SearchRequest t) - Offset (SearchRequest t) in
      case result t of
        None \<Rightarrow> Inl NilPointerPanic
      | Some res \<Rightarrow>
          (case Results res of
             None \<Rightarrow> Inl NilPointerPanic
           | Some d \<Rightarrow>
               Inr (t\<lparr>resultSizeInsufficient := fillResult_loop limit (Topks d),
                      result := Some (res\<lparr>CollectionName := collectionName t\<rparr>)\<rparr>)))"

subsection \<open>getLastBound\<close>

text \<open>
  \<^verbatim>\<open>metric.PositivelyRelated\<close> is outside this file and is the parameter
  \<open>PositivelyRelated\<close>. \<^verbatim>\<open>result.Results.Scores\<close> panics on a nil \<^verbatim>\<open>Results\<close>.
\<close>

definition getLastBound ::
  "(string \<Rightarrow> bool) \<Rightarrow> milvuspb_SearchResults \<Rightarrow> float32 option \<Rightarrow> string \<Rightarrow> error + float32" where
  "getLastBound PositivelyRelated res incomingLastBound metricType =
     (case Results res of
        None \<Rightarrow> Inl NilPointerPanic
      | Some d \<Rightarrow>
          if length (Scores d) > 0 \<and> NumQueries d = 1 then Inr (Scores d ! (length (Scores d) - 1))
          else (case incomingLastBound of
                  Some b \<Rightarrow> Inr b
                | None \<Rightarrow> if PositivelyRelated metricType then Inr MaxFloat32
                          else Inr (- MaxFloat32)))"

section \<open>The per-shard call\<close>

text \<open>
  \<^verbatim>\<open>searchShard\<close> clones the task's request and writes the clone, so what it does
  depends on which objects are shared. The request and its message base are objects in a
  store: an address maps to the object there, \<open>next_addr\<close> is the first address never
  allocated, and the \<open>Base\<close> field of a stored request is the address of its base.
\<close>

record memory =
  requests :: "addr \<Rightarrow> addr option internalpb_SearchRequest option"
  msgBases :: "addr \<Rightarrow> commonpb_MsgBase option"
  next_addr :: addr

text \<open>
  What a per-shard call can change besides the task: the store, the process-wide
  metadata cache and the load balancer. The cache and the balancer are outside this file;
  their state is the list of calls they received, oldest first.
\<close>

record world =
  mem :: memory
  DeprecateShardCache_calls :: "(string \<times> string) list"
  UpdateCostMetrics_calls :: "(int64 \<times> nat option) list"

datatype DataScope = DataScope_All | DataScope_Streaming | DataScope_Historical

record querypb_SearchRequest =
  Req :: "addr option"
  DmlChannels :: "string list"
  Scope :: DataScope
  TotalChannelNum :: "32 word"

text \<open>
  Modelled from the spec: \<^verbatim>\<open>typeutil.Clone\<close> is not among the sources. The per-shard call
  works on a fresh clone of the request (\<^verbatim>\<open>typeutil.Clone\<close> is \<^verbatim>\<open>proto.Clone\<close>, a deep
  copy): the copy of the request and the copy of its base are new objects, at addresses
  never allocated before. \<open>None\<close> stands for a request pointer with no object behind it.
\<close>

definition Clone :: "memory \<Rightarrow> addr \<Rightarrow> (addr \<times> memory) option" where
  "Clone m p =
     (case requests m p of
        None \<Rightarrow> None
      | Some r \<Rightarrow>
          (case Base r of
             None \<Rightarrow>
               Some (next_addr m,
                     m\<lparr>requests := (requests m)(next_addr m \<mapsto> r), next_addr := next_addr m + 1\<rparr>)
           | Some b \<Rightarrow>
               (case msgBases m b of
                  None \<Rightarrow> None
                | Some base \<Rightarrow>
                    Some (next_addr m,
                          m\<lparr>requests := (requests m)(next_addr m \<mapsto> r\<lparr>Base := Some (next_addr m + 1)\<rparr>),
                            msgBases := (msgBases m)(next_addr m + 1 \<mapsto> base),
                            next_addr := next_addr m + 2\<rparr>))))"

text \<open>\<^verbatim>\<open>searchReq.GetBase()\<close>: nil for a nil request or a request with no base.\<close>

definition GetBase :: "memory \<Rightarrow> addr \<Rightarrow> addr option" where
  "GetBase m p = (case requests m p of None \<Rightarrow> None | Some r \<Rightarrow> Base r)"

text \<open>
  Lines 821 to 828: the clone, the write of \<^verbatim>\<open>TargetID\<close> through the clone's base
  (a panic when that base is nil) and the request for the query node. The result is the
  store after these steps and the request, or the panic.
\<close>

definition searchShard_request ::
  "memory \<Rightarrow> addr searchTask \<Rightarrow> int64 \<Rightarrow> string \<Rightarrow> error + (memory \<times> querypb_SearchRequest)" where
  "searchShard_request m t nodeID channel =
     (case Clone m (SearchRequest t) of
        None \<Rightarrow> Inl NilPointerPanic
      | Some (searchReq, m1) \<Rightarrow>
          (case GetBase m1 searchReq of
             None \<Rightarrow> Inl NilPointerPanic
           | Some b \<Rightarrow>
               (case msgBases m1 b of
                  None \<Rightarrow> Inl NilPointerPanic
                | Some base \<Rightarrow>
                    Inr (m1\<lparr>msgBases := (msgBases m1)(b \<mapsto> base\<lparr>TargetID := nodeID\<rparr>)\<rparr>,
                         \<lparr>Req = Some searchReq, DmlChannels = [channel], Scope = DataScope_All,
                          TotalChannelNum = 1\<rparr>))))"

text \<open>\<^verbatim>\<open>result.GetStatus().GetErrorCode()\<close>: the getters give \<^verbatim>\<open>Success\<close> on a nil pointer.\<close>

definition GetErrorCode :: "internalpb_SearchResults option \<Rightarrow> ErrorCode" where
  "GetErrorCode res =
     (case res of
        None \<Rightarrow> ErrorCode_Success
      | Some r \<Rightarrow> (case Status r of None \<Rightarrow> ErrorCode_Success | Some st \<Rightarrow> ErrorCode st))"

definition GetStatus :: "internalpb_SearchResults option \<Rightarrow> commonpb_Status option" where
  "GetStatus res = (case res of None \<Rightarrow> None | Some r \<Rightarrow> Status r)"

text \<open>
  \<^verbatim>\<open>searchShard\<close>. The query node client \<open>qn\<close> is a parameter: it reads the request from
  the store and answers with an RPC error or a result (a pointer, possibly nil). The
  function returns the error (\<open>None\<close> for nil), the world and the task after the call.
  The last line of the source reads \<^verbatim>\<open>result.CostAggregation\<close>, a panic on a nil result.
\<close>

definition searchShard ::
  "world \<Rightarrow> addr searchTask \<Rightarrow> int64
     \<Rightarrow> (memory \<Rightarrow> querypb_SearchRequest \<Rightarrow> error + internalpb_SearchResults option)
     \<Rightarrow> string \<Rightarrow> error option \<times> world \<times> addr searchTask" where
  "searchShard w t nodeID qn channel =
     (case searchShard_request (mem w) t nodeID channel of
        Inl panic \<Rightarrow> (Some panic, w, t)
      | Inr (m, req) \<Rightarrow>
          (case qn m req of
             Inl err \<Rightarrow>
               (Some err,
                w\<lparr>mem := m,
                  DeprecateShardCache_calls :=
                    DeprecateShardCache_calls w @ [(DbName_req (request t), collectionName t)]\<rparr>,
                t)
           | Inr res \<Rightarrow>
               if GetErrorCode res = ErrorCode_NotShardLeader then
                 (Some errInvalidShardLeaders,
                  w\<lparr>mem := m,
                    DeprecateShardCache_calls :=
                      DeprecateShardCache_calls w @ [(DbName_req (request t), collectionName t)]\<rparr>,
                  t)
               else if GetErrorCode res \<noteq> ErrorCode_Success then
                 (Some (errors_Wrapf (merr_Error (GetStatus res))
                          ''fail to search on QueryNode %d'' [ArgInt nodeID]),
                  w\<lparr>mem := m\<rparr>, t)
               else
                 (let t' = (case resultBuf t of
                              None \<Rightarrow> t
                            | Some buf \<Rightarrow> t\<lparr>resultBuf := Some (buf @ [res])\<rparr>)
                  in case res of
                       None \<Rightarrow> (Some NilPointerPanic, w\<lparr>mem := m\<rparr>, t')
                     | Some r \<Rightarrow>
                         (None,
                          w\<lparr>mem := m,
                            UpdateCostMetrics_calls :=
                              UpdateCostMetrics_calls w @ [(nodeID, CostAggregation r)]\<rparr>,
                          t'))))"

section \<open>Example values\<close>

text \<open>Concrete requests, results and tasks, at which the theorems below are instantiated.\<close>

definition example_Base :: commonpb_MsgBase where
  "example_Base =
     \<lparr>MsgType = MsgType_Undefined, MsgID = 7, Timestamp = 1310720000, SourceID = 0,
      TargetID = 0\<rparr>"

definition example_SearchRequest_of :: "'b \<Rightarrow> 'b internalpb_SearchRequest" where
  "example_SearchRequest_of b =
     \<lparr>Base = b, DbID = 0, CollectionID = 0, PartitionIDs = [],
      PlaceholderGroup = [], DslType = DslType_Dsl, SerializedExprPlan = [],
      OutputFieldsId = [], MvccTimestamp = 0, GuaranteeTimestamp = 0, TimeoutTimestamp = 0,
      Nq = 0, Topk = 0, MetricType = [], IgnoreGrowing = False, Username = [], SubReqs = [],
      IsAdvanced = False, Offset = 0, ConsistencyLevel = ConsistencyLevel_Strong,
      GroupByFieldId = 0, GroupSize = 0, FieldId = 0, IsIterator = False, AnalyzerName = [],
      CollectionTtlTimestamps = 0\<rparr>"

definition example_SearchRequest :: SearchRequest where
  "example_SearchRequest = example_SearchRequest_of (Some example_Base)"

definition example_request :: milvuspb_SearchRequest where
  "example_request =
     \<lparr>DbName_req = ''default'', CollectionName_req = ''docs'', PartitionNames_req = [],
      Dsl_req = ''id > 0'', PlaceholderGroup_req = [1], OutputFields_req = [],
      SearchParams_req = [(''topk'', ''10'')], GuaranteeTimestamp_req = 0, Nq_req = 1,
      UseDefaultConsistency_req = True, ConsistencyLevel_req = ConsistencyLevel_Strong,
      SubReqs_req = [], ExprTemplateValues_req = 0, FunctionScore_req = None\<rparr>"

definition example_task_of :: "'sr \<Rightarrow> 'sr searchTask" where
  "example_task_of sr =
     \<lparr>SearchRequest = sr, result = None, request = example_request,
      collectionName = ''docs'', schema = None, needRequery = False, partitionKeyMode = False,
      enableMaterializedView = False, mustUsePartitionKey = False,
      resultSizeInsufficient = False, translatedOutputFields = [], userOutputFields = [],
      userDynamicFields = [], resultBuf = None, partitionIDsSet = None, queryInfos = [],
      functionScore = None, rankParams = None, isIterator = False,
      userRequestedPkFieldExplicitly = False, ctx_Deadline = None, ctx_User = []\<rparr>"

definition example_task :: task where
  "example_task = example_task_of example_SearchRequest"

text \<open>
  A world whose store holds the task's request at address 0 and its base at address 1,
  and the task after a successful \<^verbatim>\<open>PreExecute\<close> (its result buffer is allocated, empty).
\<close>

definition example_world :: world where
  "example_world =
     \<lparr>mem = \<lparr>requests = [0 \<mapsto> example_SearchRequest_of (Some 1)],
              msgBases = [1 \<mapsto> example_Base], next_addr = 2\<rparr>,
      DeprecateShardCache_calls = [], UpdateCostMetrics_calls = []\<rparr>"

definition example_shard_task :: "addr searchTask" where
  "example_shard_task = (example_task_of 0)\<lparr>resultBuf := Some []\<rparr>"

definition example_shard_result :: "ErrorCode \<Rightarrow> internalpb_SearchResults" where
  "example_shard_result code =
     \<lparr>Status = Some \<lparr>ErrorCode = code, Reason = []\<rparr>, CostAggregation = Some 42,
      MetricType_res = ''IP'', results_body = 0\<rparr>"

text \<open>
  A collection with a primary key, a scalar field and a vector field, and collaborators
  that answer for it. The timestamps follow the layout of \<^verbatim>\<open>tsoutil\<close> (physical
  milliseconds above 18 logical bits); a time is its count of nanoseconds since the Unix
  epoch, a duration is added to it as it is, and the division to milliseconds truncates
  toward zero as Go's integer division does; a filter is "an equality on the partition
  key" when it is the text \<^verbatim>\<open>pk == 1\<close>; a request is an iterator call when its parameters
  say so; the serialised plan lists the plan's output columns.
\<close>

definition example_schema :: schemaInfo where
  "example_schema =
     \<lparr>Fields = [\<lparr>Name = ''id'', FieldID = 100, DataType = 5\<rparr>,
                \<lparr>Name = ''title'', FieldID = 101, DataType = 21\<rparr>,
                \<lparr>Name = ''vec'', FieldID = 102, DataType = 101\<rparr>],
      Functions = [], schemaHelper = 0\<rparr>"

definition example_collectionInfo :: collectionInfo where
  "example_collectionInfo =
     \<lparr>consistencyLevel = ConsistencyLevel_Bounded, updateTimestamp = 100, collectionTTL = 0,
      partitionKeyIsolation = False\<rparr>"

definition example_QueryInfo :: planpb_QueryInfo where
  "example_QueryInfo =
     \<lparr>Topk_qi = 10, MetricType_qi = ''IP'', QueryFieldId = 0, GroupByFieldId_qi = - 1,
      GroupSize_qi = 1, Hints = [], MaterializedViewInvolved = False,
      SearchIteratorV2Info = None\<rparr>"

definition example_env :: collaborators where
  "example_env =
     \<lparr>GetNodeID = 1,
      defaultMaxSearchRequest = 1024,
      enableMultipleVectorFields = True,
      AnnsFieldKey = ''anns_field'',
      NQKey = ''nq'',
      BM25 = ''BM25'',
      GetCollectionID = (\<lambda>db name. if name = ''docs'' then Inr 9
                                    else Inl (Collaborator ''collection not found'')),
      GetCollectionSchema = (\<lambda>db name. Inr example_schema),
      GetCollectionInfo = (\<lambda>db name collID. Inr example_collectionInfo),
      isPartitionKeyMode = (\<lambda>db name. Inr False),
      getPartitionIDs = (\<lambda>db name names. Inr (map (\<lambda>n. 1) names)),
      assignPartitionKeys = (\<lambda>db name keys. Inr []),
      translateOutputFields = (\<lambda>fields sch addPk. Inr (fields, fields, [], False)),
      getNqFromSubSearch = (\<lambda>req. Inr (if Nq_sub req = 0
                                          then of_nat (length (PlaceholderGroup_sub req))
                                          else Nq_sub req)),
      getNq = (\<lambda>req. Inr (Nq_req req)),
      validateNQLimit = (\<lambda>nq. if sint nq \<le> 0 \<or> 16384 < sint nq
                                then Some (Collaborator ''nq out of range'') else None),
      isIgnoreGrowing = (\<lambda>params. Inr False),
      getOutputFieldIDs = (\<lambda>sch names. Inr (map FieldID
                             (filter (\<lambda>f. Name f \<in> set names) (Fields sch)))),
      parseGuaranteeTsFromConsistency = (\<lambda>ts tMax level.
         case level of
           ConsistencyLevel_Strong \<Rightarrow> tMax
         | ConsistencyLevel_Bounded \<Rightarrow> tMax - 5
         | ConsistencyLevel_Eventually \<Rightarrow> 1
         | ConsistencyLevel_Session \<Rightarrow> ts
         | ConsistencyLevel_Customized \<Rightarrow> ts),
      parseGuaranteeTs = (\<lambda>ts tMax. ts),
      parseRankParams = (\<lambda>params sch. Inr \<lparr>GroupByFieldId_rank = - 1, GroupSize_rank = 1\<rparr>),
      parseSearchInfo = (\<lambda>params sch rp.
         Inr \<lparr>planInfo = example_QueryInfo, offset_si = 0,
              isIterator_si = (map_of params ''iterator'' = Some ''True''),
              collectionID_si = 0\<rparr>),
      ValidateTask = (\<lambda>t. None),
      PhysicalTime = (\<lambda>ts. (uint ts div 262144) * 1000000),
      time_Add = (\<lambda>t d. t + sint d),
      ComposeTSByTime = (\<lambda>t logical.
         word_of_int ((if t < 0 then - ((- t) div 1000000) else t div 1000000) * 262144)
           + logical),
      GetPartitionKeyFieldSchema = (\<lambda>sch. Inr \<lparr>Name = ''id'', FieldID = 100, DataType = 5\<rparr>),
      IsFieldDataTypeSupportMaterializedView = (\<lambda>f. True),
      IsVectorType = (\<lambda>dt. 100 \<le> dt),
      GetVectorFieldSchemas = (\<lambda>sch. filter (\<lambda>f. 100 \<le> DataType f) (Fields sch)),
      GetFieldByName = (\<lambda>sch name. find (\<lambda>f. Name f = name) (Fields sch)),
      GetPkField = (\<lambda>sch. Inr \<lparr>Name = ''id'', FieldID = 100, DataType = 5\<rparr>),
      GetAttrByKeyFromRepeatedKV = (\<lambda>key params.
         case map_of params key of
           None \<Rightarrow> Inl (Collaborator ''key not found'')
         | Some v \<Rightarrow> Inr v),
      CreateSearchPlan = (\<lambda>helper dsl annsField info templateValues.
         Inr \<lparr>OutputFieldIds = [], DynamicFields = [],
              plan_body = (if dsl = ''pk == 1'' then 1 else 0)\<rparr>),
      ParseExprFromPlan = (\<lambda>plan. Inr (plan_body plan)),
      ValidatePartitionKeyIsolation = (\<lambda>expr.
         if expr = 1 then None
         else Some (Collaborator ''partition key isolation needs an equality on the partition key'')),
      ParseKeys = (\<lambda>expr. expr),
      Marshal = (\<lambda>plan info. Inr (map ucast (OutputFieldIds plan))),
      NewFunctionScore = (\<lambda>sch fs. Inr (Some fs)),
      NewFunctionScoreWithlegacy = (\<lambda>sch params. Inr None),
      GetAllInputFieldNames = (\<lambda>fs. []),
      GetAllInputFieldIDs = (\<lambda>fs. []),
      IsSupportGroup = (\<lambda>fs. True),
      RerankName = (\<lambda>fs. ''rrf''),
      HasNonBM25Functions = (\<lambda>functions fieldIDs. False),
      NewFunctionExecutor = (\<lambda>sch. Inr 0),
      ProcessSearch = (\<lambda>exec sr. Inr sr)\<rparr>"

text \<open>
  The second page of an iterator: the request names the iterator and carries the
  guarantee timestamp of its session.
\<close>

definition example_iterator_task :: task where
  "example_iterator_task =
     example_task\<lparr>request := example_request\<lparr>SearchParams_req := [(''iterator'', ''True'')],
                                               GuaranteeTimestamp_req := 5\<rparr>\<rparr>"

text \<open>The same collaborators for a collection with a TTL (in nanoseconds).\<close>

definition example_ttl_env :: "64 word \<Rightarrow> collaborators" where
  "example_ttl_env ttl =
     example_env\<lparr>GetCollectionInfo :=
       (\<lambda>db name collID. Inr (example_collectionInfo\<lparr>collectionTTL := ttl\<rparr>))\<rparr>"

text \<open>A single search that asks for a scalar output field.\<close>

definition example_output_task :: task where
  "example_output_task =
     example_task\<lparr>request := example_request\<lparr>OutputFields_req := [''title'']\<rparr>\<rparr>"

text \<open>
  A hybrid search of two legs: the first has no placeholder group and no \<open>nq\<close>, the second
  has five query vectors.
\<close>

definition example_hybrid_task :: task where
  "example_hybrid_task =
     example_task\<lparr>request := example_request
       \<lparr>Nq_req := 0,
        SubReqs_req :=
          [\<lparr>Dsl_sub = ''id > 0'', PlaceholderGroup_sub = [], DslType_sub = DslType_BoolExprV1,
            SearchParams_sub = [(''anns_field'', ''vec'')], Nq_sub = 0,
            ExprTemplateValues_sub = 0\<rparr>,
           \<lparr>Dsl_sub = ''id > 0'', PlaceholderGroup_sub = [1, 2, 3, 4, 5],
            DslType_sub = DslType_BoolExprV1,
            SearchParams_sub = [(''anns_field'', ''vec'')], Nq_sub = 5,
            ExprTemplateValues_sub = 0\<rparr>]\<rparr>\<rparr>"

text \<open>
  A collection in partition-key mode with partition-key isolation, and a task on it with
  materialized views enabled, as \<^verbatim>\<open>PreExecute\<close> has resolved it, for a given filter.
\<close>

definition example_pk_env :: collaborators where
  "example_pk_env =
     example_env\<lparr>isPartitionKeyMode := (\<lambda>db name. Inr True),
                  GetCollectionInfo :=
                    (\<lambda>db name collID. Inr (example_collectionInfo\<lparr>partitionKeyIsolation := True\<rparr>))\<rparr>"

definition example_pk_task :: "string \<Rightarrow> task" where
  "example_pk_task dsl =
     example_task\<lparr>schema := Some example_schema, partitionKeyMode := True,
                   enableMaterializedView := True,
                   request := example_request\<lparr>Dsl_req := dsl\<rparr>\<rparr>"

text \<open>
  The same task for a hybrid search: the two legs of the hybrid example with a given
  filter.
\<close>

definition example_pk_hybrid_task :: "string \<Rightarrow> task" where
  "example_pk_hybrid_task dsl =
     example_hybrid_task\<lparr>schema := Some example_schema, partitionKeyMode := True,
       enableMaterializedView := True,
       request := (request example_hybrid_task)
         \<lparr>SubReqs_req := map (\<lambda>r. r\<lparr>Dsl_sub := dsl\<rparr>)
                            (SubReqs_req (request example_hybrid_task))\<rparr>\<rparr>"

text \<open>The same collaborators while the metadata cache cannot answer for the collection.\<close>

definition example_pk_miss_env :: collaborators where
  "example_pk_miss_env =
     example_pk_env\<lparr>GetCollectionInfo :=
       (\<lambda>db name collID. Inl (Collaborator ''collection info not available''))\<rparr>"

text \<open>Collaborators whose function score reads the field \<^verbatim>\<open>title\<close>.\<close>

definition example_score_env :: collaborators where
  "example_score_env = example_env\<lparr>GetAllInputFieldIDs := (\<lambda>fs. [101])\<rparr>"


text \<open>A reduced result of one query vector with three ranked rows.\<close>

definition example_three_rows :: milvuspb_SearchResults where
  "example_three_rows =
     \<lparr>Results = Some \<lparr>NumQueries = 1, Scores = [9, 8, 7], Topks = [3], OutputFields = [],
        PrimaryFieldName = ''id'', SearchIteratorV2Results = None\<rparr>,
      CollectionName = [], SessionTs = 0\<rparr>"


section \<open>Properties\<close>

subsection \<open>Iterator last bound\<close>

text \<open>
  C5. For a result page with zero returned rows (no scores) and no incoming last bound,
  \<^verbatim>\<open>getLastBound\<close> returns \<^verbatim>\<open>math.MaxFloat32\<close> when the metric is positively related to
  similarity and \<^verbatim>\<open>-math.MaxFloat32\<close> when it is not.
\<close>

theorem getLastBound_empty_page:
  assumes "Results res = Some d" and "Scores d = []"
  shows "getLastBound PositivelyRelated res None metricType =
           Inr (if PositivelyRelated metricType then MaxFloat32 else - MaxFloat32)"
  using assms by (simp add: getLastBound_def)

theorem getLastBound_empty_page_witness:
  "getLastBound (\<lambda>m. m = ''IP'' \<or> m = ''COSINE'')
     \<lparr>Results = Some \<lparr>NumQueries = 1, Scores = [], Topks = [0], OutputFields = [],
        PrimaryFieldName = ''id'', SearchIteratorV2Results = None\<rparr>,
      CollectionName = ''c'', SessionTs = 0\<rparr> None ''IP'' = Inr MaxFloat32
   \<and> getLastBound (\<lambda>m. m = ''IP'' \<or> m = ''COSINE'')
     \<lparr>Results = Some \<lparr>NumQueries = 1, Scores = [], Topks = [0], OutputFields = [],
        PrimaryFieldName = ''id'', SearchIteratorV2Results = None\<rparr>,
      CollectionName = ''c'', SessionTs = 0\<rparr> None ''L2'' = Inr (- MaxFloat32)"
  using getLastBound_empty_page [of
      "\<lparr>Results = Some \<lparr>NumQueries = 1, Scores = [], Topks = [0], OutputFields = [],
          PrimaryFieldName = ''id'', SearchIteratorV2Results = None\<rparr>,
        CollectionName = ''c'', SessionTs = 0\<rparr>"
      "\<lparr>NumQueries = 1, Scores = [], Topks = [0], OutputFields = [],
          PrimaryFieldName = ''id'', SearchIteratorV2Results = None\<rparr>"
      "\<lambda>m. m = ''IP'' \<or> m = ''COSINE''"]
  by simp

text \<open>
  C10. \<^verbatim>\<open>getLastBound\<close> returns the last score of the result only when the result has
  scores and reports exactly one query vector. When it has scores and reports any other
  number of query vectors, the scores play no part: the value is the incoming last bound
  when there is one, and otherwise \<^verbatim>\<open>math.MaxFloat32\<close> or \<^verbatim>\<open>-math.MaxFloat32\<close> by the
  direction of the metric. The same holds when it has no scores.
\<close>

theorem getLastBound_only_single_query:
  assumes "Results res = Some d"
  shows "(Scores d \<noteq> [] \<and> NumQueries d = 1 \<longrightarrow>
            getLastBound PositivelyRelated res incoming metricType = Inr (last (Scores d)))
       \<and> (Scores d \<noteq> [] \<and> NumQueries d \<noteq> 1 \<longrightarrow>
            getLastBound PositivelyRelated res incoming metricType =
              Inr (case incoming of
                     Some b \<Rightarrow> b
                   | None \<Rightarrow> if PositivelyRelated metricType then MaxFloat32 else - MaxFloat32))
       \<and> (Scores d = [] \<longrightarrow>
            getLastBound PositivelyRelated res incoming metricType =
              Inr (case incoming of
                     Some b \<Rightarrow> b
                   | None \<Rightarrow> if PositivelyRelated metricType then MaxFloat32 else - MaxFloat32))"
  using assms by (simp add: getLastBound_def last_conv_nth split: option.split)

theorem getLastBound_only_single_query_witness:
  "getLastBound (\<lambda>m. m = ''IP'') example_three_rows (Some 5) ''IP'' = Inr 7
   \<and> getLastBound (\<lambda>m. m = ''IP'')
        (example_three_rows\<lparr>Results :=
           map_option (\<lambda>d. d\<lparr>NumQueries := 2\<rparr>) (Results example_three_rows)\<rparr>) (Some 5) ''IP''
      = Inr 5"
  using getLastBound_only_single_query [of example_three_rows
      "\<lparr>NumQueries = 1, Scores = [9, 8, 7], Topks = [3], OutputFields = [],
        PrimaryFieldName = ''id'', SearchIteratorV2Results = None\<rparr>"
      "\<lambda>m. m = ''IP''" "Some 5" "''IP''"]
    getLastBound_only_single_query [of
      "example_three_rows\<lparr>Results :=
         map_option (\<lambda>d. d\<lparr>NumQueries := 2\<rparr>) (Results example_three_rows)\<rparr>"
      "\<lparr>NumQueries = 2, Scores = [9, 8, 7], Topks = [3], OutputFields = [],
        PrimaryFieldName = ''id'', SearchIteratorV2Results = None\<rparr>"
      "\<lambda>m. m = ''IP''" "Some 5" "''IP''"]
  by (simp add: example_three_rows_def)

subsection \<open>Result size\<close>

lemma sint_sub_no_overflow:
  fixes a b :: "64 word"
  assumes "0 \<le> sint b" and "sint b \<le> sint a"
  shows "sint (a - b) = sint a - sint b"
proof -
  have "sint a < 2 ^ 63" and "- (2 ^ 63) \<le> sint a"
    using sint_lt [of a] sint_ge [of a] by simp_all
  with assms have "- (2 ^ 63) \<le> sint a - sint b" and "sint a - sint b < 2 ^ 63"
    by simp_all
  then show ?thesis
    by (simp add: sint_word_ariths signed_take_bit_int_eq_self)
qed

lemma fillResult_loop_iff:
  "fillResult_loop limit topks \<longleftrightarrow> (\<exists>k \<in> set topks. sint k < sint limit)"
  by (induction topks) auto

text \<open>
  C6. After \<^verbatim>\<open>fillResult\<close>, \<^verbatim>\<open>resultSizeInsufficient\<close> holds exactly when some returned
  per-query count of \<^verbatim>\<open>Results.Topks\<close> is smaller than top-k minus offset, the \<^verbatim>\<open>int64\<close>
  difference of the task's internal request as the code computes it; for an offset
  between 0 and top-k that is the difference of the two numbers. The reduced rows are
  left as they are. The witness is the scenario of the spec: top-k 10, offset 0, one
  query vector with 3 rows returned gives the flag and keeps the 3 rows.
\<close>

theorem fillResult_resultSizeInsufficient:
  assumes "result t = Some res" and "Results res = Some d"
  shows "\<exists>t'. fillResult t = Inr t'
           \<and> (resultSizeInsufficient t' \<longleftrightarrow>
                (\<exists>k \<in> set (Topks d).
                   sint k < sint (Topk (SearchRequest t) - Offset (SearchRequest t))))
           \<and> (0 \<le> sint (Offset (SearchRequest t))
                \<and> sint (Offset (SearchRequest t)) \<le> sint (Topk (SearchRequest t)) \<longrightarrow>
                (resultSizeInsufficient t' \<longleftrightarrow>
                   (\<exists>k \<in> set (Topks d).
                      sint k < sint (Topk (SearchRequest t)) - sint (Offset (SearchRequest t)))))
           \<and> map_option Results (result t') = Some (Some d)"
  using assms sint_sub_no_overflow [of "Offset (SearchRequest t)" "Topk (SearchRequest t)"]
  by (auto simp add: fillResult_def fillResult_loop_iff)

theorem fillResult_resultSizeInsufficient_witness:
  "\<exists>t'. fillResult (example_task\<lparr>SearchRequest := example_SearchRequest\<lparr>Topk := 10, Offset := 0\<rparr>,
                                  result := Some example_three_rows\<rparr>) = Inr t'
        \<and> resultSizeInsufficient t'
        \<and> map_option (map_option Scores \<circ> Results) (result t') = Some (Some [9, 8, 7])"
  using fillResult_resultSizeInsufficient [of
      "example_task\<lparr>SearchRequest := example_SearchRequest\<lparr>Topk := 10, Offset := 0\<rparr>,
                     result := Some example_three_rows\<rparr>"
      example_three_rows
      "\<lparr>NumQueries = 1, Scores = [9, 8, 7], Topks = [3], OutputFields = [],
        PrimaryFieldName = ''id'', SearchIteratorV2Results = None\<rparr>"]
  by (auto simp add: example_three_rows_def)

subsection \<open>The per-shard call\<close>

lemma Clone_frame:
  assumes "Clone m p = Some (a, m1)"
  shows "a = next_addr m \<and> next_addr m \<le> next_addr m1
       \<and> (\<forall>x < next_addr m. requests m1 x = requests m x \<and> msgBases m1 x = msgBases m x)
       \<and> (\<forall>b. GetBase m1 a = Some b \<longrightarrow> b = next_addr m + 1)"
  using assms
  by (auto simp add: Clone_def GetBase_def split: option.splits)

lemma searchShard_request_frame:
  assumes "searchShard_request m t nodeID channel = Inr (m2, req)"
  shows "next_addr m \<le> next_addr m2
       \<and> (\<forall>x < next_addr m. requests m2 x = requests m x \<and> msgBases m2 x = msgBases m x)
       \<and> (\<exists>a b base. Req req = Some a \<and> next_addr m \<le> a \<and> GetBase m2 a = Some b
              \<and> next_addr m \<le> b \<and> msgBases m2 b = Some base \<and> TargetID base = nodeID)"
proof -
  from assms obtain a m1 b base where
    c: "Clone m (SearchRequest t) = Some (a, m1)" and
    g: "GetBase m1 a = Some b" and
    mb: "msgBases m1 b = Some base" and
    m2: "m2 = m1\<lparr>msgBases := (msgBases m1)(b \<mapsto> base\<lparr>TargetID := nodeID\<rparr>)\<rparr>" and
    req: "Req req = Some a"
    by (auto simp add: searchShard_request_def split: option.splits)
  from Clone_frame [OF c] g have
    a: "a = next_addr m" and
    n: "next_addr m \<le> next_addr m1" and
    f: "\<forall>x < next_addr m. requests m1 x = requests m x \<and> msgBases m1 x = msgBases m x" and
    b: "b = next_addr m + 1"
    by auto
  have "GetBase m2 a = Some b"
    using g by (simp add: m2 GetBase_def)
  moreover have "msgBases m2 b = Some (base\<lparr>TargetID := nodeID\<rparr>)"
    by (simp add: m2)
  moreover have "\<forall>x < next_addr m. requests m2 x = requests m x \<and> msgBases m2 x = msgBases m x"
    using f by (simp add: m2 b)
  moreover have "next_addr m \<le> next_addr m2"
    using n by (simp add: m2)
  ultimately show ?thesis
    using req a b by auto
qed

text \<open>
  C4 (amended). For a per-shard call whose request could be built (lines 821 to 828):
  an RPC error from the query node invalidates the collection's cached shard routing and
  is returned as it is; a result with status "not shard leader" invalidates the routing
  and returns \<^verbatim>\<open>errInvalidShardLeaders\<close>; a result with any other status than success
  returns the status error wrapped with the node's id and leaves the routing cache
  alone; a successful result is added to the task's result buffer (when the buffer is
  allocated) and its cost is reported to the load balancer. In no case does the call
  change another field of the task.
\<close>

theorem searchShard_outcomes:
  assumes "searchShard_request (mem w) t nodeID channel = Inr (m, req)"
  shows "(qn m req = Inl err \<longrightarrow>
            searchShard w t nodeID qn channel =
              (Some err,
               w\<lparr>mem := m,
                 DeprecateShardCache_calls :=
                   DeprecateShardCache_calls w @ [(DbName_req (request t), collectionName t)]\<rparr>,
               t))
       \<and> (qn m req = Inr res \<and> GetErrorCode res = ErrorCode_NotShardLeader \<longrightarrow>
            searchShard w t nodeID qn channel =
              (Some errInvalidShardLeaders,
               w\<lparr>mem := m,
                 DeprecateShardCache_calls :=
                   DeprecateShardCache_calls w @ [(DbName_req (request t), collectionName t)]\<rparr>,
               t))
       \<and> (qn m req = Inr res \<and> GetErrorCode res \<noteq> ErrorCode_NotShardLeader
            \<and> GetErrorCode res \<noteq> ErrorCode_Success \<longrightarrow>
            searchShard w t nodeID qn channel =
              (Some (errors_Wrapf (merr_Error (GetStatus res))
                       ''fail to search on QueryNode %d'' [ArgInt nodeID]),
               w\<lparr>mem := m\<rparr>, t))
       \<and> (qn m req = Inr (Some r) \<and> GetErrorCode (Some r) = ErrorCode_Success \<longrightarrow>
            searchShard w t nodeID qn channel =
              (None,
               w\<lparr>mem := m,
                 UpdateCostMetrics_calls :=
                   UpdateCostMetrics_calls w @ [(nodeID, CostAggregation r)]\<rparr>,
               (case resultBuf t of
                  None \<Rightarrow> t
                | Some buf \<Rightarrow> t\<lparr>resultBuf := Some (buf @ [Some r])\<rparr>)))"
  using assms by (simp add: searchShard_def)

lemma example_request_eval:
  "searchShard_request (mem example_world) example_shard_task 3 ''ch'' =
     Inr (\<lparr>requests = [0 \<mapsto> example_SearchRequest_of (Some 1),
                        2 \<mapsto> example_SearchRequest_of (Some 3)],
           msgBases = [1 \<mapsto> example_Base, 3 \<mapsto> example_Base\<lparr>TargetID := 3\<rparr>],
           next_addr = 4\<rparr>,
          \<lparr>Req = Some 2, DmlChannels = [''ch''], Scope = DataScope_All, TotalChannelNum = 1\<rparr>)"
  by (simp add: searchShard_request_def Clone_def GetBase_def example_world_def
      example_shard_task_def example_task_of_def example_SearchRequest_of_def)

theorem searchShard_outcomes_witness:
  "searchShard example_world example_shard_task 3
     (\<lambda>m req. Inr (Some (example_shard_result ErrorCode_NotShardLeader))) ''ch'' =
     (Some errInvalidShardLeaders,
      example_world\<lparr>mem := \<lparr>requests = [0 \<mapsto> example_SearchRequest_of (Some 1),
                                          2 \<mapsto> example_SearchRequest_of (Some 3)],
                             msgBases = [1 \<mapsto> example_Base, 3 \<mapsto> example_Base\<lparr>TargetID := 3\<rparr>],
                             next_addr = 4\<rparr>,
                    DeprecateShardCache_calls := [(''default'', ''docs'')]\<rparr>,
      example_shard_task)
   \<and> searchShard example_world example_shard_task 3
     (\<lambda>m req. Inr (Some (example_shard_result ErrorCode_Success))) ''ch'' =
     (None,
      example_world\<lparr>mem := \<lparr>requests = [0 \<mapsto> example_SearchRequest_of (Some 1),
                                          2 \<mapsto> example_SearchRequest_of (Some 3)],
                             msgBases = [1 \<mapsto> example_Base, 3 \<mapsto> example_Base\<lparr>TargetID := 3\<rparr>],
                             next_addr = 4\<rparr>,
                    UpdateCostMetrics_calls := [(3, Some 42)]\<rparr>,
      example_shard_task\<lparr>resultBuf := Some [Some (example_shard_result ErrorCode_Success)]\<rparr>)"
  using searchShard_outcomes [OF example_request_eval,
      where qn = "\<lambda>m req. Inr (Some (example_shard_result ErrorCode_NotShardLeader))"
        and res = "Some (example_shard_result ErrorCode_NotShardLeader)"]
    searchShard_outcomes [OF example_request_eval,
      where qn = "\<lambda>m req. Inr (Some (example_shard_result ErrorCode_Success))"
        and r = "example_shard_result ErrorCode_Success"]
  by (simp add: GetErrorCode_def example_shard_result_def example_world_def
      example_shard_task_def example_task_of_def example_request_def)

text \<open>
  The claim as written fails: a shard that answers with the status \<^verbatim>\<open>UnexpectedError\<close>
  (an error other than "not shard leader") gets its error wrapped, but the routing cache
  is not invalidated; an error of the RPC itself invalidates the cache, but is returned
  as it is, not wrapped.
\<close>

theorem searchShard_outcomes_counterexample:
  "DeprecateShardCache_calls (fst (snd (searchShard example_world example_shard_task 3
      (\<lambda>m req. Inr (Some (example_shard_result ErrorCode_UnexpectedError))) ''ch''))) = []
   \<and> fst (searchShard example_world example_shard_task 3
      (\<lambda>m req. Inr (Some (example_shard_result ErrorCode_UnexpectedError))) ''ch'') =
     Some (errors_Wrapf (merr_Error (Some \<lparr>ErrorCode = ErrorCode_UnexpectedError, Reason = []\<rparr>))
             ''fail to search on QueryNode %d'' [ArgInt 3])
   \<and> fst (searchShard example_world example_shard_task 3
      (\<lambda>m req. Inl (Collaborator ''connection refused'')) ''ch'') =
     Some (Collaborator ''connection refused'')"
proof -
  have "DeprecateShardCache_calls example_world = []"
    by (simp add: example_world_def)
  then show ?thesis
    by (simp add: searchShard_def example_request_eval GetErrorCode_def GetStatus_def
        example_shard_result_def)
qed

text \<open>
  C9. A per-shard call writes no object of the store that existed before the call: the
  task's request and its message base are as they were, and the request given to the
  query node is a newly allocated copy whose own base carries the target node id. Of the
  task's fields only \<open>resultBuf\<close> can differ after the call, and when the call returns
  no error it differs by one inserted result. (Calls are sequential in this model; what
  is proved of one call is that its writes go to its own allocations.)
\<close>

theorem searchShard_frame:
  assumes "searchShard w t nodeID qn channel = (e, w', t')"
  shows "(\<forall>a < next_addr (mem w).
            requests (mem w') a = requests (mem w) a \<and> msgBases (mem w') a = msgBases (mem w) a)
       \<and> t'\<lparr>resultBuf := resultBuf t\<rparr> = t
       \<and> (\<forall>m req. searchShard_request (mem w) t nodeID channel = Inr (m, req) \<longrightarrow>
            (\<exists>a b base. Req req = Some a \<and> next_addr (mem w) \<le> a \<and> GetBase m a = Some b
               \<and> next_addr (mem w) \<le> b \<and> msgBases m b = Some base \<and> TargetID base = nodeID))
       \<and> (e = None \<longrightarrow> (\<exists>res. resultBuf t' = map_option (\<lambda>buf. buf @ [res]) (resultBuf t)))"
proof (cases "searchShard_request (mem w) t nodeID channel")
  case (Inl panic)
  with assms show ?thesis by (auto simp add: searchShard_def)
next
  case (Inr mr)
  obtain m req where mr: "mr = (m, req)" by (cases mr)
  note fr = searchShard_request_frame [OF Inr [unfolded mr]]
  have 1: "mem w' = m"
    using assms Inr mr
    by (auto simp add: searchShard_def Let_def split: sum.splits if_splits option.splits)
  have 2: "t'\<lparr>resultBuf := resultBuf t\<rparr> = t"
    using assms Inr mr
    by (auto simp add: searchShard_def Let_def split: sum.splits if_splits option.splits)
  have 3: "e = None \<longrightarrow> (\<exists>res. resultBuf t' = map_option (\<lambda>buf. buf @ [res]) (resultBuf t))"
    using assms Inr mr
    by (auto simp add: searchShard_def Let_def split: sum.splits if_splits option.splits)
  from fr 1 2 3 Inr mr show ?thesis by auto
qed


theorem searchShard_frame_witness:
  "requests (mem (fst (snd (searchShard example_world example_shard_task 3
      (\<lambda>m req. Inr (Some (example_shard_result ErrorCode_Success))) ''ch'')))) 0 =
     Some (example_SearchRequest_of (Some 1))
   \<and> msgBases (mem (fst (snd (searchShard example_world example_shard_task 3
      (\<lambda>m req. Inr (Some (example_shard_result ErrorCode_Success))) ''ch'')))) 1 =
     Some example_Base
   \<and> (snd (snd (searchShard example_world example_shard_task 3
      (\<lambda>m req. Inr (Some (example_shard_result ErrorCode_Success))) ''ch'')))\<lparr>resultBuf := Some []\<rparr> =
     example_shard_task
   \<and> map_option length (resultBuf (snd (snd (searchShard example_world example_shard_task 3
      (\<lambda>m req. Inr (Some (example_shard_result ErrorCode_Success))) ''ch'')))) = Some 1"
proof -
  let ?X = "searchShard example_world example_shard_task 3
      (\<lambda>m req. Inr (Some (example_shard_result ErrorCode_Success))) ''ch''"
  have e: "fst ?X = None"
    by (simp add: searchShard_def example_request_eval GetErrorCode_def example_shard_result_def
        Let_def split: option.split)
  have b: "resultBuf example_shard_task = Some []"
    by (simp add: example_shard_task_def)
  have n: "next_addr (mem example_world) = 2" and r0: "requests (mem example_world) 0 = Some (example_SearchRequest_of (Some 1))"
    and b1: "msgBases (mem example_world) 1 = Some example_Base"
    by (simp_all add: example_world_def)
  have "?X = (fst ?X, fst (snd ?X), snd (snd ?X))" by simp
  from searchShard_frame [OF this] e b n r0 b1 show ?thesis
    by auto
qed

subsection \<open>PreExecute: timestamps\<close>

lemma Inr_projr: "\<not> isl x \<Longrightarrow> x = Inr (projr x)"
  by (cases x) auto

lemma Inr_projr_pair: "\<not> isl x \<Longrightarrow> x = Inr (fst (projr x), snd (projr x))"
  by (cases x) auto

lemma PreExecute_guarantee_BeginTs:
  assumes "PreExecute_guarantee env t = Inr (t3, info)"
  shows "\<exists>beginTs. BeginTs t = Inr beginTs"
  using assms
  by (cases "BeginTs t") (auto simp add: PreExecute_guarantee_def split: sum.splits)

lemma PreExecute_guarantee_Inr:
  assumes "PreExecute_guarantee env t = Inr (t3, info)" and "BeginTs t = Inr beginTs"
  shows "GetCollectionInfo env (DbName_req (request t)) (CollectionName_req (request t))
           (CollectionID (SearchRequest t)) = Inr info
       \<and> GuaranteeTimestamp (SearchRequest t3) =
           (if isIterator t \<and> 0 < GuaranteeTimestamp_req (request t)
            then GuaranteeTimestamp_req (request t)
            else max (resolveGuaranteeTs env (request t) beginTs info) (updateTimestamp info))
       \<and> Base (SearchRequest t3) = Base (SearchRequest t)"
  using assms
  by (auto simp add: PreExecute_guarantee_def Let_def max_def split: sum.splits)

lemma PreExecute_ttl_GuaranteeTimestamp:
  assumes "PreExecute_ttl env info t = Inr t4"
  shows "GuaranteeTimestamp (SearchRequest t4) = GuaranteeTimestamp (SearchRequest t)"
  using assms
  by (auto simp add: PreExecute_ttl_def Let_def split: option.splits if_splits)

lemma PreExecute_guarantee_MvccTimestamp:
  assumes "PreExecute_guarantee env t = Inr (t3, info)"
  shows "MvccTimestamp (SearchRequest t3) =
           (if isIterator t \<and> 0 < GuaranteeTimestamp_req (request t)
            then GuaranteeTimestamp_req (request t)
            else MvccTimestamp (SearchRequest t))"
  using assms
  by (cases "BeginTs t")
     (auto simp add: PreExecute_guarantee_def Let_def split: sum.splits)

lemma PreExecute_ttl_MvccTimestamp:
  assumes "PreExecute_ttl env info t = Inr t4"
  shows "MvccTimestamp (SearchRequest t4) = MvccTimestamp (SearchRequest t)"
  using assms
  by (auto simp add: PreExecute_ttl_def Let_def split: option.splits if_splits)

lemma PreExecute_finish_SearchRequest:
  assumes "PreExecute_finish env t = Inr t5"
  shows "SearchRequest t5 = SearchRequest t"
  using assms
  by (auto simp add: PreExecute_finish_def Let_def split: option.splits)

lemma PreExecute_Inr:
  assumes "PreExecute env t = Inr t'"
  obtains t1 t2 t3 info t4 where
    "PreExecute_resolve env t = Inr t1" and "PreExecute_compose env t1 = Inr t2" and
    "PreExecute_guarantee env t2 = Inr (t3, info)" and "PreExecute_ttl env info t3 = Inr t4" and
    "PreExecute_finish env t4 = Inr t'"
  using assms
  by (auto simp add: PreExecute_def split: sum.splits)

text \<open>
  C1 (amended). When \<^verbatim>\<open>PreExecute\<close> succeeds, let \<open>t2\<close> be the task once its request is
  composed, \<open>info\<close> the collection's info and \<open>beginTs\<close> the task's begin timestamp.
  Unless the task is an iterator call whose request carries a guarantee timestamp above
  zero, the guarantee timestamp of the outgoing internal request is at least the
  timestamp resolved from the consistency level (the collection's default when the
  request asks for it) and at least the collection's last schema update, and the MVCC
  timestamp is left as composed. For an iterator call with a guarantee timestamp above
  zero, the outgoing guarantee timestamp and the outgoing MVCC timestamp are both that
  timestamp of the request.
\<close>

theorem PreExecute_GuaranteeTimestamp:
  assumes "PreExecute env t = Inr t'"
  shows "\<exists>t1 t2 info beginTs.
           PreExecute_resolve env t = Inr t1
         \<and> PreExecute_compose env t1 = Inr t2
         \<and> GetCollectionInfo env (DbName_req (request t2)) (CollectionName_req (request t2))
             (CollectionID (SearchRequest t2)) = Inr info
         \<and> BeginTs t2 = Inr beginTs
         \<and> (if isIterator t2 \<and> 0 < GuaranteeTimestamp_req (request t2)
            then GuaranteeTimestamp (SearchRequest t') = GuaranteeTimestamp_req (request t2)
               \<and> MvccTimestamp (SearchRequest t') = GuaranteeTimestamp_req (request t2)
            else resolveGuaranteeTs env (request t2) beginTs info
                   \<le> GuaranteeTimestamp (SearchRequest t')
               \<and> updateTimestamp info \<le> GuaranteeTimestamp (SearchRequest t')
               \<and> MvccTimestamp (SearchRequest t') = MvccTimestamp (SearchRequest t2))"
proof -
  from assms obtain t1 t2 t3 info t4 where
    r: "PreExecute_resolve env t = Inr t1" and c: "PreExecute_compose env t1 = Inr t2" and
    g: "PreExecute_guarantee env t2 = Inr (t3, info)" and l: "PreExecute_ttl env info t3 = Inr t4" and
    f: "PreExecute_finish env t4 = Inr t'"
    by (rule PreExecute_Inr)
  from PreExecute_guarantee_BeginTs [OF g] obtain beginTs where
    b: "BeginTs t2 = Inr beginTs"
    by blast
  from PreExecute_guarantee_Inr [OF g b] have
    i: "GetCollectionInfo env (DbName_req (request t2)) (CollectionName_req (request t2))
           (CollectionID (SearchRequest t2)) = Inr info" and
    v: "GuaranteeTimestamp (SearchRequest t3) =
          (if isIterator t2 \<and> 0 < GuaranteeTimestamp_req (request t2)
           then GuaranteeTimestamp_req (request t2)
           else max (resolveGuaranteeTs env (request t2) beginTs info) (updateTimestamp info))"
    by auto
  note m = PreExecute_guarantee_MvccTimestamp [OF g]
  have "GuaranteeTimestamp (SearchRequest t') = GuaranteeTimestamp (SearchRequest t3)"
    and "MvccTimestamp (SearchRequest t') = MvccTimestamp (SearchRequest t3)"
    using PreExecute_ttl_GuaranteeTimestamp [OF l] PreExecute_ttl_MvccTimestamp [OF l]
      PreExecute_finish_SearchRequest [OF f] by simp_all
  with v m have "if isIterator t2 \<and> 0 < GuaranteeTimestamp_req (request t2)
            then GuaranteeTimestamp (SearchRequest t') = GuaranteeTimestamp_req (request t2)
               \<and> MvccTimestamp (SearchRequest t') = GuaranteeTimestamp_req (request t2)
            else resolveGuaranteeTs env (request t2) beginTs info
                   \<le> GuaranteeTimestamp (SearchRequest t')
               \<and> updateTimestamp info \<le> GuaranteeTimestamp (SearchRequest t')
               \<and> MvccTimestamp (SearchRequest t') = MvccTimestamp (SearchRequest t2)"
    by (simp split: if_splits)
  with r c i b show ?thesis by blast
qed

text \<open>
  The claim as written fails for the second page of an iterator: with the schema updated
  at 100 and the level resolved to 1310719995, the outgoing guarantee timestamp is the 5
  the request carries.
\<close>

theorem PreExecute_GuaranteeTimestamp_counterexample:
  "\<not> isl (PreExecute example_env example_iterator_task)
   \<and> GuaranteeTimestamp (SearchRequest (projr (PreExecute example_env example_iterator_task))) = 5
   \<and> GetCollectionInfo example_env ''default'' ''docs'' 9 = Inr example_collectionInfo
   \<and> updateTimestamp example_collectionInfo = 100
   \<and> resolveGuaranteeTs example_env (request example_iterator_task) 1310720000
        example_collectionInfo = 1310719995
   \<and> \<not> max (resolveGuaranteeTs example_env (request example_iterator_task) 1310720000
              example_collectionInfo) (updateTimestamp example_collectionInfo)
        \<le> GuaranteeTimestamp (SearchRequest (projr (PreExecute example_env example_iterator_task)))"
proof -
  have "\<not> isl (PreExecute example_env example_iterator_task)"
    by code_simp
  moreover have
    g: "GuaranteeTimestamp (SearchRequest (projr (PreExecute example_env example_iterator_task))) = 5"
    by code_simp
  moreover have u: "updateTimestamp example_collectionInfo = 100"
    by (simp add: example_collectionInfo_def)
  moreover have "GetCollectionInfo example_env ''default'' ''docs'' 9 = Inr example_collectionInfo"
    by (simp add: example_env_def)
  moreover have r: "resolveGuaranteeTs example_env (request example_iterator_task) 1310720000
        example_collectionInfo = 1310719995"
    by code_simp
  moreover have "\<not> max (resolveGuaranteeTs example_env (request example_iterator_task) 1310720000
              example_collectionInfo) (updateTimestamp example_collectionInfo)
        \<le> GuaranteeTimestamp (SearchRequest (projr (PreExecute example_env example_iterator_task)))"
    by (simp add: g u r)
  ultimately show ?thesis by simp
qed

theorem PreExecute_GuaranteeTimestamp_witness:
  "(\<exists>t1 t2 info beginTs.
     PreExecute_resolve example_env example_task = Inr t1
   \<and> PreExecute_compose example_env t1 = Inr t2
   \<and> GetCollectionInfo example_env (DbName_req (request t2)) (CollectionName_req (request t2))
       (CollectionID (SearchRequest t2)) = Inr info
   \<and> BeginTs t2 = Inr beginTs
   \<and> \<not> isIterator t2
   \<and> resolveGuaranteeTs example_env (request t2) beginTs info
        \<le> GuaranteeTimestamp (SearchRequest (projr (PreExecute example_env example_task)))
   \<and> updateTimestamp info
        \<le> GuaranteeTimestamp (SearchRequest (projr (PreExecute example_env example_task)))
   \<and> MvccTimestamp (SearchRequest (projr (PreExecute example_env example_task)))
        = MvccTimestamp (SearchRequest t2))
 \<and> (\<exists>t1 t2.
     PreExecute_resolve example_env example_iterator_task = Inr t1
   \<and> PreExecute_compose example_env t1 = Inr t2
   \<and> isIterator t2 \<and> GuaranteeTimestamp_req (request t2) = 5
   \<and> GuaranteeTimestamp (SearchRequest (projr (PreExecute example_env example_iterator_task))) = 5
   \<and> MvccTimestamp (SearchRequest (projr (PreExecute example_env example_iterator_task))) = 5)"
proof -
  have "\<not> isl (PreExecute example_env example_task)"
    by code_simp
  then have "PreExecute example_env example_task = Inr (projr (PreExecute example_env example_task))"
    by (rule Inr_projr)
  from PreExecute_GuaranteeTimestamp [OF this] obtain t1 t2 info beginTs where
    r: "PreExecute_resolve example_env example_task = Inr t1" and
    c: "PreExecute_compose example_env t1 = Inr t2" and
    i: "GetCollectionInfo example_env (DbName_req (request t2)) (CollectionName_req (request t2))
         (CollectionID (SearchRequest t2)) = Inr info" and
    b: "BeginTs t2 = Inr beginTs" and
    v: "if isIterator t2 \<and> 0 < GuaranteeTimestamp_req (request t2)
        then GuaranteeTimestamp (SearchRequest (projr (PreExecute example_env example_task)))
               = GuaranteeTimestamp_req (request t2)
           \<and> MvccTimestamp (SearchRequest (projr (PreExecute example_env example_task)))
               = GuaranteeTimestamp_req (request t2)
        else resolveGuaranteeTs example_env (request t2) beginTs info
               \<le> GuaranteeTimestamp (SearchRequest (projr (PreExecute example_env example_task)))
           \<and> updateTimestamp info
               \<le> GuaranteeTimestamp (SearchRequest (projr (PreExecute example_env example_task)))
           \<and> MvccTimestamp (SearchRequest (projr (PreExecute example_env example_task)))
               = MvccTimestamp (SearchRequest t2)"
    by blast
  have "\<not> isIterator (projr (PreExecute_compose example_env
           (projr (PreExecute_resolve example_env example_task))))"
    by code_simp
  with r c have n: "\<not> isIterator t2" by simp
  with v r c i b have first: "\<exists>t1 t2 info beginTs.
     PreExecute_resolve example_env example_task = Inr t1
   \<and> PreExecute_compose example_env t1 = Inr t2
   \<and> GetCollectionInfo example_env (DbName_req (request t2)) (CollectionName_req (request t2))
       (CollectionID (SearchRequest t2)) = Inr info
   \<and> BeginTs t2 = Inr beginTs
   \<and> \<not> isIterator t2
   \<and> resolveGuaranteeTs example_env (request t2) beginTs info
        \<le> GuaranteeTimestamp (SearchRequest (projr (PreExecute example_env example_task)))
   \<and> updateTimestamp info
        \<le> GuaranteeTimestamp (SearchRequest (projr (PreExecute example_env example_task)))
   \<and> MvccTimestamp (SearchRequest (projr (PreExecute example_env example_task)))
        = MvccTimestamp (SearchRequest t2)"
    by auto
  let ?I = "example_iterator_task"
  have "\<not> isl (PreExecute example_env ?I)"
    by code_simp
  then have "PreExecute example_env ?I = Inr (projr (PreExecute example_env ?I))"
    by (rule Inr_projr)
  from PreExecute_GuaranteeTimestamp [OF this] obtain u1 u2 where
    ur: "PreExecute_resolve example_env ?I = Inr u1" and
    uc: "PreExecute_compose example_env u1 = Inr u2" and
    uv: "if isIterator u2 \<and> 0 < GuaranteeTimestamp_req (request u2)
        then GuaranteeTimestamp (SearchRequest (projr (PreExecute example_env ?I)))
               = GuaranteeTimestamp_req (request u2)
           \<and> MvccTimestamp (SearchRequest (projr (PreExecute example_env ?I)))
               = GuaranteeTimestamp_req (request u2)
        else MvccTimestamp (SearchRequest (projr (PreExecute example_env ?I)))
               = MvccTimestamp (SearchRequest u2)"
    by (auto split: if_splits)
  have "isIterator (projr (PreExecute_compose example_env
           (projr (PreExecute_resolve example_env ?I))))"
    and "GuaranteeTimestamp_req (request (projr (PreExecute_compose example_env
           (projr (PreExecute_resolve example_env ?I))))) = 5"
    by code_simp+
  with ur uc have ui: "isIterator u2" "GuaranteeTimestamp_req (request u2) = 5" by simp_all
  with uv ur uc have second: "\<exists>t1 t2.
     PreExecute_resolve example_env ?I = Inr t1
   \<and> PreExecute_compose example_env t1 = Inr t2
   \<and> isIterator t2 \<and> GuaranteeTimestamp_req (request t2) = 5
   \<and> GuaranteeTimestamp (SearchRequest (projr (PreExecute example_env ?I))) = 5
   \<and> MvccTimestamp (SearchRequest (projr (PreExecute example_env ?I))) = 5"
    by auto
  from first second show ?thesis by blast
qed

lemma PreExecute_ttl_cases:
  assumes "collectionTTL info \<noteq> 0" and "BeginTs t = Inr beginTs"
  shows "(beginTs < ttlCutoff env beginTs (collectionTTL info) \<longrightarrow>
            PreExecute_ttl env info t =
              Inl (WrapErrServiceInternal
                     ''ttl timestamp overflow, base timestamp: %d, ttl duration %v''
                     [ArgInt beginTs, ArgInt (collectionTTL info)]))
       \<and> (\<not> beginTs < ttlCutoff env beginTs (collectionTTL info) \<longrightarrow>
            (\<exists>t4. PreExecute_ttl env info t = Inr t4
               \<and> CollectionTtlTimestamps (SearchRequest t4)
                   = ttlCutoff env beginTs (collectionTTL info)))"
proof -
  from assms(2) obtain base where
    base: "Base (SearchRequest t) = Some base" "Timestamp base = beginTs"
    by (auto simp add: BeginTs_def split: option.splits)
  show ?thesis
    using assms(1) base
    by (cases "ctx_Deadline t"; cases "ctx_User t = []")
       (simp_all add: PreExecute_ttl_def GetTimestamp_def Let_def)
qed

text \<open>
  C8. For a collection with a TTL other than zero, once the phases before it have
  succeeded, \<^verbatim>\<open>PreExecute\<close> computes the cutoff from the task's begin timestamp and the
  TTL (\<open>ttlCutoff\<close>). When the cutoff is above the begin timestamp it fails with the
  internal error "ttl timestamp overflow"; the TTL step fails in no other case; otherwise
  the cutoff is written to \<^verbatim>\<open>CollectionTtlTimestamps\<close> of the request, \<^verbatim>\<open>PreExecute\<close>
  goes on with its last phase, and a successful \<^verbatim>\<open>PreExecute\<close> leaves the cutoff there.
\<close>

theorem PreExecute_ttl_overflow:
  assumes "PreExecute_resolve env t = Inr t1" and "PreExecute_compose env t1 = Inr t2"
    and "PreExecute_guarantee env t2 = Inr (t3, info)" and "collectionTTL info \<noteq> 0"
  shows "\<exists>beginTs. BeginTs t3 = Inr beginTs
     \<and> (beginTs < ttlCutoff env beginTs (collectionTTL info) \<longrightarrow>
          PreExecute env t =
            Inl (WrapErrServiceInternal
                   ''ttl timestamp overflow, base timestamp: %d, ttl duration %v''
                   [ArgInt beginTs, ArgInt (collectionTTL info)]))
     \<and> (\<not> beginTs < ttlCutoff env beginTs (collectionTTL info) \<longrightarrow>
          (\<exists>t4. PreExecute_ttl env info t3 = Inr t4
             \<and> CollectionTtlTimestamps (SearchRequest t4)
                 = ttlCutoff env beginTs (collectionTTL info)
             \<and> PreExecute env t = PreExecute_finish env t4))
     \<and> (isl (PreExecute_ttl env info t3) \<longleftrightarrow>
          beginTs < ttlCutoff env beginTs (collectionTTL info))
     \<and> (\<forall>t'. PreExecute env t = Inr t' \<longrightarrow>
          CollectionTtlTimestamps (SearchRequest t') = ttlCutoff env beginTs (collectionTTL info))"
proof -
  from PreExecute_guarantee_BeginTs [OF assms(3)] obtain b2 where b2: "BeginTs t2 = Inr b2"
    by blast
  from PreExecute_guarantee_Inr [OF assms(3) b2] have "Base (SearchRequest t3) = Base (SearchRequest t2)"
    by simp
  with b2 have b: "BeginTs t3 = Inr b2"
    by (simp add: BeginTs_def)
  note cs = PreExecute_ttl_cases [OF assms(4) b, of env]
  have p: "PreExecute env t =
             (case PreExecute_ttl env info t3 of Inl err \<Rightarrow> Inl err | Inr t4 \<Rightarrow> PreExecute_finish env t4)"
    using assms by (simp add: PreExecute_def)
  show ?thesis
  proof (cases "b2 < ttlCutoff env b2 (collectionTTL info)")
    case True
    with cs have e: "PreExecute_ttl env info t3 =
              Inl (WrapErrServiceInternal
                     ''ttl timestamp overflow, base timestamp: %d, ttl duration %v''
                     [ArgInt b2, ArgInt (collectionTTL info)])"
      by simp
    show ?thesis
      apply (rule exI [of _ b2])
      using True b e p by simp
  next
    case False
    with cs obtain t4 where
      t4: "PreExecute_ttl env info t3 = Inr t4" and
      c4: "CollectionTtlTimestamps (SearchRequest t4) = ttlCutoff env b2 (collectionTTL info)"
      by blast
    have f: "PreExecute env t = PreExecute_finish env t4"
      using p t4 by simp
    have "CollectionTtlTimestamps (SearchRequest t') = ttlCutoff env b2 (collectionTTL info)"
      if "PreExecute env t = Inr t'" for t'
    proof -
      from that f have "PreExecute_finish env t4 = Inr t'"
        by simp
      from PreExecute_finish_SearchRequest [OF this] c4 show ?thesis
        by simp
    qed
    then show ?thesis
      apply (intro exI [of _ b2] conjI)
      using False b t4 c4 f by simp_all
  qed
qed


theorem PreExecute_ttl_overflow_witness:
  "PreExecute (example_ttl_env 10000000000) example_task =
     Inl (WrapErrServiceInternal ''ttl timestamp overflow, base timestamp: %d, ttl duration %v''
            [ArgInt 1310720000, ArgInt 10000000000])
   \<and> \<not> isl (PreExecute (example_ttl_env 1000000000) example_task)
   \<and> CollectionTtlTimestamps
        (SearchRequest (projr (PreExecute (example_ttl_env 1000000000) example_task)))
       = 1048576000"
proof -
  let ?A = "example_ttl_env 10000000000"
  let ?a1 = "projr (PreExecute_resolve ?A example_task)"
  let ?a2 = "projr (PreExecute_compose ?A ?a1)"
  let ?a3 = "projr (PreExecute_guarantee ?A ?a2)"
  have "\<not> isl (PreExecute_resolve ?A example_task)" by code_simp
  then have ar: "PreExecute_resolve ?A example_task = Inr ?a1" by (rule Inr_projr)
  have "\<not> isl (PreExecute_compose ?A ?a1)" by code_simp
  then have ac: "PreExecute_compose ?A ?a1 = Inr ?a2" by (rule Inr_projr)
  have "\<not> isl (PreExecute_guarantee ?A ?a2)" by code_simp
  then have ag: "PreExecute_guarantee ?A ?a2 = Inr (fst ?a3, snd ?a3)" by (rule Inr_projr_pair)
  have attl: "collectionTTL (snd ?a3) = 10000000000" by code_simp
  then have "collectionTTL (snd ?a3) \<noteq> 0" by simp
  from PreExecute_ttl_overflow [OF ar ac ag this] obtain ba where
    ab: "BeginTs (fst ?a3) = Inr ba" and
    ao: "ba < ttlCutoff ?A ba (collectionTTL (snd ?a3)) \<longrightarrow>
           PreExecute ?A example_task =
             Inl (WrapErrServiceInternal
                    ''ttl timestamp overflow, base timestamp: %d, ttl duration %v''
                    [ArgInt ba, ArgInt (collectionTTL (snd ?a3))])"
    by blast
  have "BeginTs (fst ?a3) = Inr 1310720000" by code_simp
  with ab have ba: "ba = 1310720000" by simp
  have "(1310720000 :: 64 word) < ttlCutoff ?A 1310720000 10000000000" by code_simp
  with ao ba attl have first: "PreExecute ?A example_task =
     Inl (WrapErrServiceInternal ''ttl timestamp overflow, base timestamp: %d, ttl duration %v''
            [ArgInt 1310720000, ArgInt 10000000000])"
    by simp
  let ?B = "example_ttl_env 1000000000"
  let ?b1 = "projr (PreExecute_resolve ?B example_task)"
  let ?b2 = "projr (PreExecute_compose ?B ?b1)"
  let ?b3 = "projr (PreExecute_guarantee ?B ?b2)"
  have "\<not> isl (PreExecute_resolve ?B example_task)" by code_simp
  then have br: "PreExecute_resolve ?B example_task = Inr ?b1" by (rule Inr_projr)
  have "\<not> isl (PreExecute_compose ?B ?b1)" by code_simp
  then have bc: "PreExecute_compose ?B ?b1 = Inr ?b2" by (rule Inr_projr)
  have "\<not> isl (PreExecute_guarantee ?B ?b2)" by code_simp
  then have bg: "PreExecute_guarantee ?B ?b2 = Inr (fst ?b3, snd ?b3)" by (rule Inr_projr_pair)
  have bttl: "collectionTTL (snd ?b3) = 1000000000" by code_simp
  then have "collectionTTL (snd ?b3) \<noteq> 0" by simp
  from PreExecute_ttl_overflow [OF br bc bg this] obtain bb where
    bbt: "BeginTs (fst ?b3) = Inr bb" and
    bo: "\<forall>t'. PreExecute ?B example_task = Inr t' \<longrightarrow>
           CollectionTtlTimestamps (SearchRequest t') = ttlCutoff ?B bb (collectionTTL (snd ?b3))"
    by blast
  have "BeginTs (fst ?b3) = Inr 1310720000" by code_simp
  with bbt have bb: "bb = 1310720000" by simp
  have ok: "\<not> isl (PreExecute ?B example_task)" by code_simp
  then have "PreExecute ?B example_task = Inr (projr (PreExecute ?B example_task))"
    by (rule Inr_projr)
  with bo have "CollectionTtlTimestamps (SearchRequest (projr (PreExecute ?B example_task)))
      = ttlCutoff ?B bb (collectionTTL (snd ?b3))"
    by blast
  moreover have "ttlCutoff ?B 1310720000 1000000000 = 1048576000" by code_simp
  ultimately have "CollectionTtlTimestamps (SearchRequest (projr (PreExecute ?B example_task)))
      = 1048576000"
    using bb bttl by simp
  with first ok show ?thesis by simp
qed

subsection \<open>Request composition\<close>

lemma callFunctionExecutor_Inr:
  assumes "callFunctionExecutor env sch ids t = Inr t'"
  shows "t' = t\<lparr>SearchRequest := SearchRequest t'\<rparr>"
  using assms
  by (auto simp add: callFunctionExecutor_def split: if_splits sum.splits)

lemma initSearchRequest_outputs_Inr:
  assumes "initSearchRequest_outputs env t sch plan = Inr (requery, plan')"
  shows "(requery \<longleftrightarrow> (\<exists>f \<in> set (Fields sch). Name f \<in> set (translatedOutputFields t)
                              \<and> IsVectorType env (DataType f)))
       \<and> (requery \<longrightarrow> plan' = plan\<lparr>OutputFieldIds := GetAllInputFieldIDs env (functionScore t)\<rparr>)"
  using assms
  by (auto simp add: initSearchRequest_outputs_def Let_def filter_empty_conv
      split: if_splits sum.splits)

lemma initSearchRequest_Inr:
  assumes "initSearchRequest env t = Inr t'"
  obtains plan qi off it sch t2 qi' t3 requery plan' serialized t4 where
    "tryGeneratePlan env t (SearchParams_req (request t)) (Dsl_req (request t))
       (ExprTemplateValues_req (request t)) = Inr (plan, qi, off, it)" and
    "schema t = Some sch" and
    "\<exists>fs sr. t2 = t\<lparr>functionScore := fs, isIterator := it, SearchRequest := sr\<rparr>
        \<and> CollectionID sr = CollectionID (SearchRequest t)" and
    "partitionKeyMode t \<longrightarrow> setQueryInfoIfMvEnable env qi t2 plan = Inr qi'" and
    "\<not> partitionKeyMode t \<longrightarrow> qi' = qi" and
    "\<exists>sr. t3 = t2\<lparr>SearchRequest := sr\<rparr>" and
    "initSearchRequest_outputs env t3 sch plan = Inr (requery, plan')" and
    "Marshal env plan' qi' = Inr serialized" and
    "\<exists>sr. t4 = t3\<lparr>needRequery := requery, queryInfos := queryInfos t3 @ [qi'], SearchRequest := sr\<rparr>" and
    "t' = t4\<lparr>SearchRequest := SearchRequest t'\<rparr>" and
    "SerializedExprPlan (SearchRequest t4) = serialized" and
    "callFunctionExecutor env sch [QueryFieldId qi'] t4 = Inr t'"
proof -
  from assms obtain plan qi off it where
    p: "tryGeneratePlan env t (SearchParams_req (request t)) (Dsl_req (request t))
       (ExprTemplateValues_req (request t)) = Inr (plan, qi, off, it)"
    by (auto simp add: initSearchRequest_def split: sum.splits)
  from assms p obtain sch where s: "schema t = Some sch"
    by (auto simp add: initSearchRequest_def split: option.splits)
  define fsr where "fsr = (case FunctionScore_req (request t) of
                        None \<Rightarrow> Inr t
                      | Some fs \<Rightarrow>
                          (case NewFunctionScore env sch fs of
                             Inl err \<Rightarrow> Inl err
                           | Inr fscore \<Rightarrow>
                               if \<not> IsSupportGroup env fscore
                                  \<and> 0 < sint (GroupByFieldId_qi qi) then
                                 Inl (WrapErrParameterInvalidMsg
                                        ''Rerank %s does not support grouping search''
                                        [ArgString (RerankName env fscore)])
                               else Inr (t\<lparr>functionScore := fscore\<rparr>)))"
  from assms p s obtain t1 where t1: "fsr = Inr t1"
    by (cases fsr) (auto simp add: initSearchRequest_def fsr_def)
  have t1': "\<exists>fs. t1 = t\<lparr>functionScore := fs\<rparr>"
  proof (cases "FunctionScore_req (request t)")
    case None
    with t1 have "t1 = t" by (simp add: fsr_def)
    then have "t1 = t\<lparr>functionScore := functionScore t\<rparr>" by simp
    then show ?thesis by blast
  next
    case (Some fs)
    with t1 show ?thesis
      by (auto simp add: fsr_def split: sum.splits if_splits)
  qed
  define t2 where "t2 = t1\<lparr>isIterator := it,
                                 SearchRequest := (SearchRequest t1)
                                   \<lparr>Offset := off, FieldId := QueryFieldId qi\<rparr>\<rparr>"
  define pk where "pk = (if partitionKeyMode t2 then
                                (case setQueryInfoIfMvEnable env qi t2 plan of
                                   Inl mvErr \<Rightarrow> Inl mvErr
                                 | Inr queryInfo' \<Rightarrow>
                                     (case tryParsePartitionIDsFromPlan env t2 plan of
                                        Inl err2 \<Rightarrow> Inl err2
                                      | Inr partitionIDs \<Rightarrow>
                                          Inr (queryInfo',
                                               if length partitionIDs > 0 then
                                                 t2\<lparr>SearchRequest := (SearchRequest t2)
                                                      \<lparr>PartitionIDs := partitionIDs\<rparr>\<rparr>
                                               else t2)))
                              else Inr (qi, t2))"
  have unf: "initSearchRequest env t =
    (case pk of
                          Inl err \<Rightarrow> Inl err
                        | Inr (queryInfo', t3) \<Rightarrow>
                            (case initSearchRequest_outputs env t3 sch plan of
                               Inl err \<Rightarrow> Inl err
                             | Inr (requery, plan') \<Rightarrow>
                                 (case Marshal env plan' queryInfo' of
                                    Inl err \<Rightarrow> Inl err
                                  | Inr serialized \<Rightarrow>
                                      (let sr = (SearchRequest t3)
                                             \<lparr>SerializedExprPlan := serialized,
                                              PlaceholderGroup := PlaceholderGroup_req (request t3),
                                              Topk := Topk_qi queryInfo',
                                              MetricType := MetricType_qi queryInfo',
                                              DslType := DslType_BoolExprV1,
                                              GroupByFieldId := GroupByFieldId_qi queryInfo',
                                              GroupSize := GroupSize_qi queryInfo'\<rparr>;
                                           sr' = (if MetricType sr = BM25 env then
                                                    (case GetAttrByKeyFromRepeatedKV env ''analyzer_name''
                                                            (SearchParams_req (request t3)) of
                                                       Inl err \<Rightarrow> sr
                                                     | Inr analyzer \<Rightarrow> sr\<lparr>AnalyzerName := analyzer\<rparr>)
                                                  else sr)
                                       in callFunctionExecutor env sch [QueryFieldId queryInfo']
                                            (t3\<lparr>needRequery := requery,
                                                queryInfos := queryInfos t3 @ [queryInfo'],
                                                SearchRequest := sr'\<rparr>)))))"
    using p s t1 unfolding initSearchRequest_def pk_def t2_def fsr_def
    by (simp add: Let_def)
  from assms unf obtain qi' t3 where pk': "pk = Inr (qi', t3)"
    by (cases pk) auto
  from assms unf pk' obtain requery plan' where
    o: "initSearchRequest_outputs env t3 sch plan = Inr (requery, plan')"
    by (cases "initSearchRequest_outputs env t3 sch plan") auto
  from assms unf pk' o obtain serialized where m: "Marshal env plan' qi' = Inr serialized"
    by (cases "Marshal env plan' qi'") auto
  define sr where "sr = (SearchRequest t3)
                                             \<lparr>SerializedExprPlan := serialized,
                                              PlaceholderGroup := PlaceholderGroup_req (request t3),
                                              Topk := Topk_qi qi',
                                              MetricType := MetricType_qi qi',
                                              DslType := DslType_BoolExprV1,
                                              GroupByFieldId := GroupByFieldId_qi qi',
                                              GroupSize := GroupSize_qi qi'\<rparr>"
  define sr' where "sr' = (if MetricType sr = BM25 env then
                                                    (case GetAttrByKeyFromRepeatedKV env ''analyzer_name''
                                                            (SearchParams_req (request t3)) of
                                                       Inl err \<Rightarrow> sr
                                                     | Inr analyzer \<Rightarrow> sr\<lparr>AnalyzerName := analyzer\<rparr>)
                                                  else sr)"
  define t4 where "t4 = t3\<lparr>needRequery := requery, queryInfos := queryInfos t3 @ [qi'],
                           SearchRequest := sr'\<rparr>"
  have c: "callFunctionExecutor env sch [QueryFieldId qi'] t4 = Inr t'"
    unfolding t4_def sr'_def sr_def
    using assms unf pk' o m by (simp add: Let_def)
  have a3: "\<exists>fs sr. t2 = t\<lparr>functionScore := fs, isIterator := it, SearchRequest := sr\<rparr>
        \<and> CollectionID sr = CollectionID (SearchRequest t)"
  proof -
    from t1' obtain fs where "t1 = t\<lparr>functionScore := fs\<rparr>"
      by blast
    then have "t2 = t\<lparr>functionScore := fs, isIterator := it,
                     SearchRequest := (SearchRequest t)\<lparr>Offset := off, FieldId := QueryFieldId qi\<rparr>\<rparr>"
      by (simp add: t2_def)
    moreover have "CollectionID ((SearchRequest t)\<lparr>Offset := off, FieldId := QueryFieldId qi\<rparr>)
        = CollectionID (SearchRequest t)"
      by simp
    ultimately show ?thesis
      by blast
  qed
  have pkm: "partitionKeyMode t2 = partitionKeyMode t"
    using t1' by (auto simp add: t2_def)
  have a4: "partitionKeyMode t \<longrightarrow> setQueryInfoIfMvEnable env qi t2 plan = Inr qi'"
    using pk' pkm by (auto simp add: pk_def split: sum.splits)
  have a5: "\<not> partitionKeyMode t \<longrightarrow> qi' = qi"
    using pk' pkm by (auto simp add: pk_def)
  have a6: "\<exists>sr. t3 = t2\<lparr>SearchRequest := sr\<rparr>"
  proof -
    have "t3 = t2 \<or> (\<exists>ids. t3 = t2\<lparr>SearchRequest := (SearchRequest t2)\<lparr>PartitionIDs := ids\<rparr>\<rparr>)"
      using pk' by (auto simp add: pk_def split: sum.splits if_splits)
    then show ?thesis
    proof
      assume "t3 = t2"
      then have "t3 = t2\<lparr>SearchRequest := SearchRequest t2\<rparr>" by simp
      then show ?thesis by blast
    next
      assume "\<exists>ids. t3 = t2\<lparr>SearchRequest := (SearchRequest t2)\<lparr>PartitionIDs := ids\<rparr>\<rparr>"
      then show ?thesis by blast
    qed
  qed
  have a9: "\<exists>sr. t4 = t3\<lparr>needRequery := requery, queryInfos := queryInfos t3 @ [qi'], SearchRequest := sr\<rparr>"
    unfolding t4_def by blast
  have a10: "SerializedExprPlan (SearchRequest t4) = serialized"
    unfolding t4_def sr'_def sr_def by (simp split: sum.splits)
  from that [OF p s a3 a4 a5 a6 o m a9 callFunctionExecutor_Inr [OF c] a10 c] show ?thesis .
qed

lemma initAdvancedSearchRequest_leg_Inr:
  assumes "initAdvancedSearchRequest_leg env t rp subReq = Inr (isub, qi', ids)"
  obtains plan qi off it where
    "tryGeneratePlan env t (SearchParams_sub subReq) (Dsl_sub subReq)
       (ExprTemplateValues_sub subReq) = Inr (plan, qi, off, it)" and
    "partitionKeyMode t \<longrightarrow> setQueryInfoIfMvEnable env qi t plan = Inr qi'" and
    "\<not> partitionKeyMode t \<longrightarrow> qi' = qi" and
    "Marshal env (plan\<lparr>OutputFieldIds := [], DynamicFields := []\<rparr>) qi'
       = Inr (SerializedExprPlan_isub isub)" and
    "Nq_isub isub = Nq_sub subReq"
proof -
  from assms obtain plan qi off it where
    p: "tryGeneratePlan env t (SearchParams_sub subReq) (Dsl_sub subReq)
       (ExprTemplateValues_sub subReq) = Inr (plan, qi, off, it)"
    by (auto simp add: initAdvancedSearchRequest_leg_def split: sum.splits)
  define ig where "ig = (if IgnoreGrowing (SearchRequest t) then Inr True
                 else isIgnoreGrowing env (SearchParams_sub subReq))"
  from assms p obtain ignoreGrowing where i: "ig = Inr ignoreGrowing"
    by (cases ig) (auto simp add: initAdvancedSearchRequest_leg_def ig_def)
  define pk where "pk = (if partitionKeyMode t then
                           (case setQueryInfoIfMvEnable env qi t plan of
                              Inl mvErr \<Rightarrow> Inl mvErr
                            | Inr queryInfo' \<Rightarrow>
                                (case tryParsePartitionIDsFromPlan env t plan of
                                   Inl err2 \<Rightarrow> Inl err2
                                 | Inr partitionIDs \<Rightarrow> Inr (queryInfo', partitionIDs, partitionIDs)))
                         else Inr (qi, PartitionIDs (SearchRequest t), []))"
  from assms p i obtain q l u where pk': "pk = Inr (q, l, u)"
    by (cases pk) (auto simp add: initAdvancedSearchRequest_leg_def ig_def pk_def Let_def)
  from assms p i pk' obtain serialized where
    m: "Marshal env (plan\<lparr>OutputFieldIds := [], DynamicFields := []\<rparr>) q = Inr serialized"
    by (cases "Marshal env (plan\<lparr>OutputFieldIds := [], DynamicFields := []\<rparr>) q")
       (auto simp add: initAdvancedSearchRequest_leg_def ig_def pk_def Let_def)
  from assms p i pk' m have
    r: "qi' = q" "SerializedExprPlan_isub isub = serialized" "Nq_isub isub = Nq_sub subReq"
    by (auto simp add: initAdvancedSearchRequest_leg_def ig_def pk_def Let_def)
  have a2: "partitionKeyMode t \<longrightarrow> setQueryInfoIfMvEnable env qi t plan = Inr qi'"
    using pk' r(1) by (auto simp add: pk_def split: sum.splits)
  have a3: "\<not> partitionKeyMode t \<longrightarrow> qi' = qi"
    using pk' r(1) by (auto simp add: pk_def)
  from that [OF p a2 a3] m r show ?thesis by simp
qed

lemma initAdvancedSearchRequest_loop_Inr:
  assumes "initAdvancedSearchRequest_loop env t rp reqs = Inr (isubs, qis, ids)"
  shows "list_all2 (\<lambda>subReq (isub, qi'). \<exists>ids'.
           initAdvancedSearchRequest_leg env t rp subReq = Inr (isub, qi', ids'))
         reqs (zip isubs qis) \<and> length isubs = length qis"
  using assms
proof (induction reqs arbitrary: isubs qis ids)
  case Nil
  then show ?case by simp
next
  case (Cons subReq rest)
  from Cons.prems obtain isub qi' u where
    l: "initAdvancedSearchRequest_leg env t rp subReq = Inr (isub, qi', u)"
    by (cases "initAdvancedSearchRequest_leg env t rp subReq") auto
  from Cons.prems l obtain isubs' qis' ids' where
    r: "initAdvancedSearchRequest_loop env t rp rest = Inr (isubs', qis', ids')"
    by (cases "initAdvancedSearchRequest_loop env t rp rest") auto
  from Cons.prems l r have e: "isubs = isub # isubs'" "qis = qi' # qis'"
    by auto
  from Cons.IH [OF r] l e show ?case
    by auto
qed

lemma initAdvancedSearchRequest_Inr:
  assumes "initAdvancedSearchRequest env t = Inr t'"
  obtains sch fscore rp t1 isubs qis ids where
    "schema t = Some sch" and
    "t1 = t\<lparr>partitionIDsSet := Some [], functionScore := fscore,
            needRequery := (length (OutputFields_req (request t)) > 0
                            \<or> length (GetAllInputFieldNames env fscore) > 0),
            rankParams := Some rp\<rparr>" and
    "initAdvancedSearchRequest_loop env t1 rp (SubReqs_req (request t)) = Inr (isubs, qis, ids)" and
    "needRequery t' = needRequery t1" and "functionScore t' = fscore" and "queryInfos t' = qis"
proof -
  from assms obtain sch where s: "schema t = Some sch"
    by (auto simp add: initAdvancedSearchRequest_def split: option.splits)
  define fsr where "fsr = (case FunctionScore_req (request t) of
                   Some fs \<Rightarrow> NewFunctionScore env sch fs
                 | None \<Rightarrow> NewFunctionScoreWithlegacy env sch (SearchParams_req (request t)))"
  from assms s obtain fscore where f: "fsr = Inr fscore"
    by (cases fsr) (auto simp add: initAdvancedSearchRequest_def fsr_def)
  from assms s f obtain rp where r: "parseRankParams env (SearchParams_req (request t)) sch = Inr rp"
    by (cases "parseRankParams env (SearchParams_req (request t)) sch")
       (auto simp add: initAdvancedSearchRequest_def fsr_def)
  define t1 where "t1 = t\<lparr>partitionIDsSet := Some [], functionScore := fscore,
            needRequery := (length (OutputFields_req (request t)) > 0
                            \<or> length (GetAllInputFieldNames env fscore) > 0),
            rankParams := Some rp\<rparr>"
  from assms s f r have g: "\<not> (\<not> IsSupportGroup env fscore \<and> 0 \<le> sint (GroupByFieldId_rank rp))"
    by (auto simp add: initAdvancedSearchRequest_def fsr_def)
  from assms s f r g obtain isubs qis ids where
    l: "initAdvancedSearchRequest_loop env t1 rp (SubReqs_req (request t)) = Inr (isubs, qis, ids)"
    by (cases "initAdvancedSearchRequest_loop env t1 rp (SubReqs_req (request t))")
       (auto simp add: initAdvancedSearchRequest_def fsr_def t1_def Let_def)
  from assms s f r g l obtain t2 where
    c: "callFunctionExecutor env sch (map FieldId_isub isubs)
          (t1\<lparr>SearchRequest := (SearchRequest t1)\<lparr>SubReqs := isubs\<rparr>,
              queryInfos := qis, partitionIDsSet := Some ids\<rparr>) = Inr t2"
    by (cases "callFunctionExecutor env sch (map FieldId_isub isubs)
          (t1\<lparr>SearchRequest := (SearchRequest t1)\<lparr>SubReqs := isubs\<rparr>,
              queryInfos := qis, partitionIDsSet := Some ids\<rparr>)")
       (auto simp add: initAdvancedSearchRequest_def fsr_def t1_def Let_def)
  from assms s f r g l c have "\<exists>sr. t' = t2\<lparr>SearchRequest := sr\<rparr>"
    by (auto simp add: initAdvancedSearchRequest_def fsr_def t1_def Let_def)
  then obtain sr where t': "t' = t2\<lparr>SearchRequest := sr\<rparr>"
    by blast
  note e = callFunctionExecutor_Inr [OF c]
  have "needRequery t2 = needRequery t1"
    by (subst e) simp
  moreover have "functionScore t2 = functionScore t1"
    by (subst e) simp
  moreover have "queryInfos t2 = qis"
    by (subst e) simp
  ultimately have "needRequery t2 = needRequery t1" "functionScore t2 = functionScore t1"
    "queryInfos t2 = qis"
    by simp_all
  with t' have "needRequery t' = needRequery t1" "functionScore t' = fscore" "queryInfos t' = qis"
    by (simp_all add: t1_def)
  from that [OF s t1_def l this] show ?thesis .
qed

lemma setQueryInfoIfMvEnable_isolation:
  assumes "enableMaterializedView t"
    and "GetCollectionInfo env (DbName_req (request t)) (collectionName t)
           (CollectionID (SearchRequest t)) = Inr info"
    and "partitionKeyIsolation info"
  shows "((\<forall>expr. ParseExprFromPlan env plan = Inr expr \<longrightarrow>
              ValidatePartitionKeyIsolation env expr \<noteq> None) \<longrightarrow>
           isl (setQueryInfoIfMvEnable env qi t plan))
       \<and> (\<forall>qi'. setQueryInfoIfMvEnable env qi t plan = Inr qi' \<longrightarrow>
             Hints qi' = ''disable''
           \<and> (\<exists>expr. ParseExprFromPlan env plan = Inr expr
                 \<and> ValidatePartitionKeyIsolation env expr = None))"
  using assms
  by (auto simp add: setQueryInfoIfMvEnable_def split: option.splits sum.splits)

lemma initAdvancedSearchRequest_isolation:
  assumes "enableMaterializedView t" and "partitionKeyMode t"
    and "GetCollectionInfo env (DbName_req (request t)) (collectionName t)
           (CollectionID (SearchRequest t)) = Inr info"
    and "partitionKeyIsolation info"
    and "initAdvancedSearchRequest env t = Inr t'"
  shows "length (queryInfos t') = length (SubReqs_req (request t))
       \<and> list_all (\<lambda>qi'. Hints qi' = ''disable'') (queryInfos t')
       \<and> (\<exists>fscore nr rp.
                list_all (\<lambda>subReq. \<exists>plan qi off it expr.
                    tryGeneratePlan env
                      (t\<lparr>partitionIDsSet := Some [], functionScore := fscore,
                         needRequery := nr, rankParams := Some rp\<rparr>)
                      (SearchParams_sub subReq) (Dsl_sub subReq)
                      (ExprTemplateValues_sub subReq) = Inr (plan, qi, off, it)
                  \<and> ParseExprFromPlan env plan = Inr expr
                  \<and> ValidatePartitionKeyIsolation env expr = None)
                  (SubReqs_req (request t)))"
proof -
  from assms(5) obtain sch fscore rp t1 isubs qis ids where
    t1: "t1 = t\<lparr>partitionIDsSet := Some [], functionScore := fscore,
            needRequery := (length (OutputFields_req (request t)) > 0
                            \<or> length (GetAllInputFieldNames env fscore) > 0),
            rankParams := Some rp\<rparr>" and
    l: "initAdvancedSearchRequest_loop env t1 rp (SubReqs_req (request t)) = Inr (isubs, qis, ids)" and
    qs: "queryInfos t' = qis"
    by (rule initAdvancedSearchRequest_Inr)
  have a1: "enableMaterializedView t1" and a2: "partitionKeyMode t1"
    using assms(1,2) by (simp_all add: t1)
  have a3: "GetCollectionInfo env (DbName_req (request t1)) (collectionName t1)
           (CollectionID (SearchRequest t1)) = Inr info"
    using assms(3) by (simp add: t1)
  from initAdvancedSearchRequest_loop_Inr [OF l] have
    la: "list_all2 (\<lambda>subReq (isub, qi'). \<exists>ids'.
           initAdvancedSearchRequest_leg env t1 rp subReq = Inr (isub, qi', ids'))
         (SubReqs_req (request t)) (zip isubs qis)" and
    len: "length isubs = length qis"
    by simp_all
  from la len have len2: "length (SubReqs_req (request t)) = length qis"
    by (auto dest: list_all2_lengthD)
  have leg: "\<exists>plan qi off it expr.
        tryGeneratePlan env t1 (SearchParams_sub (SubReqs_req (request t) ! k))
          (Dsl_sub (SubReqs_req (request t) ! k))
          (ExprTemplateValues_sub (SubReqs_req (request t) ! k)) = Inr (plan, qi, off, it)
      \<and> ParseExprFromPlan env plan = Inr expr
      \<and> ValidatePartitionKeyIsolation env expr = None
      \<and> Hints (qis ! k) = ''disable''" if k: "k < length qis" for k
  proof -
    from la len len2 k have "\<exists>ids'. initAdvancedSearchRequest_leg env t1 rp (SubReqs_req (request t) ! k)
        = Inr (isubs ! k, qis ! k, ids')"
      by (auto simp add: list_all2_conv_all_nth)
    then obtain ids' where
      "initAdvancedSearchRequest_leg env t1 rp (SubReqs_req (request t) ! k)
         = Inr (isubs ! k, qis ! k, ids')"
      by blast
    then obtain plan qi off it where
      p: "tryGeneratePlan env t1 (SearchParams_sub (SubReqs_req (request t) ! k))
          (Dsl_sub (SubReqs_req (request t) ! k))
          (ExprTemplateValues_sub (SubReqs_req (request t) ! k)) = Inr (plan, qi, off, it)" and
      mv: "partitionKeyMode t1 \<longrightarrow> setQueryInfoIfMvEnable env qi t1 plan = Inr (qis ! k)"
      by (rule initAdvancedSearchRequest_leg_Inr)
    from mv a2 have "setQueryInfoIfMvEnable env qi t1 plan = Inr (qis ! k)"
      by simp
    with setQueryInfoIfMvEnable_isolation [OF a1 a3 assms(4), of plan qi] obtain expr where
      "Hints (qis ! k) = ''disable''" and
      "ParseExprFromPlan env plan = Inr expr" and
      "ValidatePartitionKeyIsolation env expr = None"
      by blast
    with p show ?thesis
      by blast
  qed
  have 1: "length (queryInfos t') = length (SubReqs_req (request t))"
    using qs len2 by simp
  have 2: "list_all (\<lambda>qi'. Hints qi' = ''disable'') (queryInfos t')"
    using leg qs by (auto simp add: list_all_length)
  have "list_all (\<lambda>subReq. \<exists>plan qi off it expr.
                    tryGeneratePlan env t1
                      (SearchParams_sub subReq) (Dsl_sub subReq)
                      (ExprTemplateValues_sub subReq) = Inr (plan, qi, off, it)
                  \<and> ParseExprFromPlan env plan = Inr expr
                  \<and> ValidatePartitionKeyIsolation env expr = None)
                  (SubReqs_req (request t))"
    unfolding list_all_length
  proof (intro allI impI)
    fix k
    assume "k < length (SubReqs_req (request t))"
    with len2 have "k < length qis" by simp
    from leg [OF this] show "\<exists>plan qi off it expr.
        tryGeneratePlan env t1 (SearchParams_sub (SubReqs_req (request t) ! k))
          (Dsl_sub (SubReqs_req (request t) ! k))
          (ExprTemplateValues_sub (SubReqs_req (request t) ! k)) = Inr (plan, qi, off, it)
      \<and> ParseExprFromPlan env plan = Inr expr
      \<and> ValidatePartitionKeyIsolation env expr = None"
      by blast
  qed
  then have 3: "\<exists>fscore nr rp.
                list_all (\<lambda>subReq. \<exists>plan qi off it expr.
                    tryGeneratePlan env
                      (t\<lparr>partitionIDsSet := Some [], functionScore := fscore,
                         needRequery := nr, rankParams := Some rp\<rparr>)
                      (SearchParams_sub subReq) (Dsl_sub subReq)
                      (ExprTemplateValues_sub subReq) = Inr (plan, qi, off, it)
                  \<and> ParseExprFromPlan env plan = Inr expr
                  \<and> ValidatePartitionKeyIsolation env expr = None)
                  (SubReqs_req (request t))"
    unfolding t1 by blast
  from 1 2 3 show ?thesis by simp
qed

text \<open>
  Where the lookup of the collection's info succeeds. Take a task with materialized views
  enabled on a collection in partition-key mode whose info says partition-key isolation.
  Then \<^verbatim>\<open>setQueryInfoIfMvEnable\<close> returns an error whenever the plan's filter does not parse
  to an expression that \<^verbatim>\<open>ValidatePartitionKeyIsolation\<close> accepts, and when it returns no
  error the filter was accepted and the query info's hint is \<^verbatim>\<open>disable\<close>. Both callers
  pass the error on: a single search (\<^verbatim>\<open>initSearchRequest\<close>) and a leg of a hybrid search
  succeed only with an accepted filter and then carry the hint; a hybrid search
  (\<^verbatim>\<open>initAdvancedSearchRequest\<close>) succeeds only when the filter of every leg of the request
  was accepted, and then it records one query info for each leg, each with the hint.
\<close>

theorem partitionKeyIsolation_check:
  assumes "enableMaterializedView t" and "partitionKeyMode t"
    and "GetCollectionInfo env (DbName_req (request t)) (collectionName t)
           (CollectionID (SearchRequest t)) = Inr info"
    and "partitionKeyIsolation info"
  shows "(\<forall>qi plan.
            (\<forall>expr. ParseExprFromPlan env plan = Inr expr \<longrightarrow>
               ValidatePartitionKeyIsolation env expr \<noteq> None) \<longrightarrow>
            isl (setQueryInfoIfMvEnable env qi t plan))
       \<and> (\<forall>qi plan qi'. setQueryInfoIfMvEnable env qi t plan = Inr qi' \<longrightarrow>
            Hints qi' = ''disable''
          \<and> (\<exists>expr. ParseExprFromPlan env plan = Inr expr
                \<and> ValidatePartitionKeyIsolation env expr = None))
       \<and> (\<forall>t'. initSearchRequest env t = Inr t' \<longrightarrow>
            (\<exists>plan qi off it expr.
                tryGeneratePlan env t (SearchParams_req (request t)) (Dsl_req (request t))
                  (ExprTemplateValues_req (request t)) = Inr (plan, qi, off, it)
              \<and> ParseExprFromPlan env plan = Inr expr
              \<and> ValidatePartitionKeyIsolation env expr = None
              \<and> Hints (last (queryInfos t')) = ''disable''))
       \<and> (\<forall>rp subReq isub qi' ids.
            initAdvancedSearchRequest_leg env t rp subReq = Inr (isub, qi', ids) \<longrightarrow>
            (\<exists>plan qi off it expr.
                tryGeneratePlan env t (SearchParams_sub subReq) (Dsl_sub subReq)
                  (ExprTemplateValues_sub subReq) = Inr (plan, qi, off, it)
              \<and> ParseExprFromPlan env plan = Inr expr
              \<and> ValidatePartitionKeyIsolation env expr = None
              \<and> Hints qi' = ''disable''))
       \<and> (\<forall>t'. initAdvancedSearchRequest env t = Inr t' \<longrightarrow>
            length (queryInfos t') = length (SubReqs_req (request t))
          \<and> list_all (\<lambda>qi'. Hints qi' = ''disable'') (queryInfos t')
          \<and> (\<exists>fscore nr rp.
                list_all (\<lambda>subReq. \<exists>plan qi off it expr.
                    tryGeneratePlan env
                      (t\<lparr>partitionIDsSet := Some [], functionScore := fscore,
                         needRequery := nr, rankParams := Some rp\<rparr>)
                      (SearchParams_sub subReq) (Dsl_sub subReq)
                      (ExprTemplateValues_sub subReq) = Inr (plan, qi, off, it)
                  \<and> ParseExprFromPlan env plan = Inr expr
                  \<and> ValidatePartitionKeyIsolation env expr = None)
                  (SubReqs_req (request t))))"
proof (intro conjI allI impI)
  fix qi plan
  assume "\<forall>expr. ParseExprFromPlan env plan = Inr expr \<longrightarrow>
             ValidatePartitionKeyIsolation env expr \<noteq> None"
  with setQueryInfoIfMvEnable_isolation [OF assms(1,3,4), of plan qi]
  show "isl (setQueryInfoIfMvEnable env qi t plan)"
    by blast
next
  fix qi plan qi'
  assume "setQueryInfoIfMvEnable env qi t plan = Inr qi'"
  with setQueryInfoIfMvEnable_isolation [OF assms(1,3,4), of plan qi]
  show "Hints qi' = ''disable''"
    and "\<exists>expr. ParseExprFromPlan env plan = Inr expr
            \<and> ValidatePartitionKeyIsolation env expr = None"
    by blast+
next
  fix t'
  assume i: "initSearchRequest env t = Inr t'"
  from i obtain plan qi off it sch t2 qi' t3 requery plan' serialized t4 where
    p: "tryGeneratePlan env t (SearchParams_req (request t)) (Dsl_req (request t))
       (ExprTemplateValues_req (request t)) = Inr (plan, qi, off, it)" and
    t2: "\<exists>fs sr. t2 = t\<lparr>functionScore := fs, isIterator := it, SearchRequest := sr\<rparr>
        \<and> CollectionID sr = CollectionID (SearchRequest t)" and
    mv: "partitionKeyMode t \<longrightarrow> setQueryInfoIfMvEnable env qi t2 plan = Inr qi'" and
    t3: "\<exists>sr. t3 = t2\<lparr>SearchRequest := sr\<rparr>" and
    t4: "\<exists>sr. t4 = t3\<lparr>needRequery := requery, queryInfos := queryInfos t3 @ [qi'],
                       SearchRequest := sr\<rparr>" and
    t': "t' = t4\<lparr>SearchRequest := SearchRequest t'\<rparr>"
    by (rule initSearchRequest_Inr)
  from t2 obtain fs sr where
    t2e: "t2 = t\<lparr>functionScore := fs, isIterator := it, SearchRequest := sr\<rparr>" and
    cid: "CollectionID sr = CollectionID (SearchRequest t)"
    by blast
  have a1: "enableMaterializedView t2"
    using assms(1) by (simp add: t2e)
  have a3: "GetCollectionInfo env (DbName_req (request t2)) (collectionName t2)
           (CollectionID (SearchRequest t2)) = Inr info"
    using assms(3) cid by (simp add: t2e)
  from mv assms(2) have s: "setQueryInfoIfMvEnable env qi t2 plan = Inr qi'"
    by simp
  with setQueryInfoIfMvEnable_isolation [OF a1 a3 assms(4), of plan qi] obtain expr where
    h: "Hints qi' = ''disable''" and
    e: "ParseExprFromPlan env plan = Inr expr" and
    v: "ValidatePartitionKeyIsolation env expr = None"
    by blast
  from t4 obtain sr4 where
    "t4 = t3\<lparr>needRequery := requery, queryInfos := queryInfos t3 @ [qi'], SearchRequest := sr4\<rparr>"
    by blast
  then have "queryInfos t4 = queryInfos t3 @ [qi']"
    by simp
  moreover have "queryInfos t' = queryInfos t4"
    by (subst t') simp
  ultimately have "Hints (last (queryInfos t')) = ''disable''"
    using h by simp
  with p e v
  show "\<exists>plan qi off it expr.
                tryGeneratePlan env t (SearchParams_req (request t)) (Dsl_req (request t))
                  (ExprTemplateValues_req (request t)) = Inr (plan, qi, off, it)
              \<and> ParseExprFromPlan env plan = Inr expr
              \<and> ValidatePartitionKeyIsolation env expr = None
              \<and> Hints (last (queryInfos t')) = ''disable''"
    by blast
next
  fix rp subReq isub qi' ids
  assume "initAdvancedSearchRequest_leg env t rp subReq = Inr (isub, qi', ids)"
  then obtain plan qi off it where
    p: "tryGeneratePlan env t (SearchParams_sub subReq) (Dsl_sub subReq)
       (ExprTemplateValues_sub subReq) = Inr (plan, qi, off, it)" and
    mv: "partitionKeyMode t \<longrightarrow> setQueryInfoIfMvEnable env qi t plan = Inr qi'"
    by (rule initAdvancedSearchRequest_leg_Inr)
  from mv assms(2) have "setQueryInfoIfMvEnable env qi t plan = Inr qi'"
    by simp
  with setQueryInfoIfMvEnable_isolation [OF assms(1,3,4), of plan qi] obtain expr where
    "Hints qi' = ''disable''" and
    "ParseExprFromPlan env plan = Inr expr" and
    "ValidatePartitionKeyIsolation env expr = None"
    by blast
  with p show "\<exists>plan qi off it expr.
                tryGeneratePlan env t (SearchParams_sub subReq) (Dsl_sub subReq)
                  (ExprTemplateValues_sub subReq) = Inr (plan, qi, off, it)
              \<and> ParseExprFromPlan env plan = Inr expr
              \<and> ValidatePartitionKeyIsolation env expr = None
              \<and> Hints qi' = ''disable''"
    by blast
next
  fix t'
  assume i: "initAdvancedSearchRequest env t = Inr t'"
  from initAdvancedSearchRequest_isolation [OF assms i]
  show "length (queryInfos t') = length (SubReqs_req (request t))"
    and "list_all (\<lambda>qi'. Hints qi' = ''disable'') (queryInfos t')"
    and "\<exists>fscore nr rp.
                list_all (\<lambda>subReq. \<exists>plan qi off it expr.
                    tryGeneratePlan env
                      (t\<lparr>partitionIDsSet := Some [], functionScore := fscore,
                         needRequery := nr, rankParams := Some rp\<rparr>)
                      (SearchParams_sub subReq) (Dsl_sub subReq)
                      (ExprTemplateValues_sub subReq) = Inr (plan, qi, off, it)
                  \<and> ParseExprFromPlan env plan = Inr expr
                  \<and> ValidatePartitionKeyIsolation env expr = None)
                  (SubReqs_req (request t))"
    by simp_all
qed

theorem partitionKeyIsolation_check_witness:
  "isl (initSearchRequest example_pk_env (example_pk_task ''pk > 1''))
   \<and> isl (PreExecute example_pk_env
        (example_task\<lparr>enableMaterializedView := True,
                       request := example_request\<lparr>Dsl_req := ''pk > 1''\<rparr>\<rparr>))
   \<and> \<not> isl (initSearchRequest example_pk_env (example_pk_task ''pk == 1''))
   \<and> Hints (last (queryInfos (projr (initSearchRequest example_pk_env (example_pk_task ''pk == 1'')))))
       = ''disable''
   \<and> isl (initAdvancedSearchRequest example_pk_env (example_pk_hybrid_task ''pk > 1''))
   \<and> \<not> isl (initAdvancedSearchRequest example_pk_env (example_pk_hybrid_task ''pk == 1''))
   \<and> length (queryInfos (projr (initAdvancedSearchRequest example_pk_env
                                    (example_pk_hybrid_task ''pk == 1'')))) = 2
   \<and> list_all (\<lambda>qi'. Hints qi' = ''disable'')
        (queryInfos (projr (initAdvancedSearchRequest example_pk_env
                              (example_pk_hybrid_task ''pk == 1''))))"
proof -
  let ?t = "example_pk_task ''pk == 1''"
  let ?h = "example_pk_hybrid_task ''pk == 1''"
  let ?info = "example_collectionInfo\<lparr>partitionKeyIsolation := True\<rparr>"
  have mv: "enableMaterializedView ?t" and pk: "partitionKeyMode ?t"
    by (simp_all add: example_pk_task_def)
  have ci: "GetCollectionInfo example_pk_env (DbName_req (request ?t)) (collectionName ?t)
           (CollectionID (SearchRequest ?t)) = Inr ?info"
    by (simp add: example_pk_env_def)
  have iso: "partitionKeyIsolation ?info"
    by simp
  have ok: "\<not> isl (initSearchRequest example_pk_env ?t)"
    by code_simp
  then have "initSearchRequest example_pk_env ?t = Inr (projr (initSearchRequest example_pk_env ?t))"
    by (rule Inr_projr)
  with partitionKeyIsolation_check [OF mv pk ci iso]
  have h: "Hints (last (queryInfos (projr (initSearchRequest example_pk_env ?t)))) = ''disable''"
    by blast
  have hmv: "enableMaterializedView ?h" and hpk: "partitionKeyMode ?h"
    by (simp_all add: example_pk_hybrid_task_def)
  have hci: "GetCollectionInfo example_pk_env (DbName_req (request ?h)) (collectionName ?h)
           (CollectionID (SearchRequest ?h)) = Inr ?info"
    by (simp add: example_pk_env_def)
  have hok: "\<not> isl (initAdvancedSearchRequest example_pk_env ?h)"
    by code_simp
  then have he: "initAdvancedSearchRequest example_pk_env ?h
      = Inr (projr (initAdvancedSearchRequest example_pk_env ?h))"
    by (rule Inr_projr)
  have hl: "length (SubReqs_req (request ?h)) = 2"
    by (simp add: example_pk_hybrid_task_def example_hybrid_task_def)
  from partitionKeyIsolation_check [OF hmv hpk hci iso] he
  have "length (queryInfos (projr (initAdvancedSearchRequest example_pk_env ?h)))
          = length (SubReqs_req (request ?h))
      \<and> list_all (\<lambda>qi'. Hints qi' = ''disable'')
          (queryInfos (projr (initAdvancedSearchRequest example_pk_env ?h)))"
    by blast
  with hl have hh: "length (queryInfos (projr (initAdvancedSearchRequest example_pk_env ?h))) = 2"
    "list_all (\<lambda>qi'. Hints qi' = ''disable'')
          (queryInfos (projr (initAdvancedSearchRequest example_pk_env ?h)))"
    by simp_all
  have f1: "isl (initSearchRequest example_pk_env (example_pk_task ''pk > 1''))"
    by code_simp
  have f2: "isl (PreExecute example_pk_env
        (example_task\<lparr>enableMaterializedView := True,
                       request := example_request\<lparr>Dsl_req := ''pk > 1''\<rparr>\<rparr>))"
    by code_simp
  have f3: "isl (initAdvancedSearchRequest example_pk_env (example_pk_hybrid_task ''pk > 1''))"
    by code_simp
  from f1 f2 f3 ok h hok hh show ?thesis by simp
qed

lemma setQueryInfoIfMvEnable_lookup_error:
  assumes "enableMaterializedView t" and "schema t = Some sch"
    and "GetPartitionKeyFieldSchema env sch = Inr f"
    and "IsFieldDataTypeSupportMaterializedView env f"
    and "GetCollectionInfo env (DbName_req (request t)) (collectionName t)
           (CollectionID (SearchRequest t)) = Inl colErr"
  shows "setQueryInfoIfMvEnable env qi t plan = Inr qi"
  using assms by (simp add: setQueryInfoIfMvEnable_def)

text \<open>
  C7. The claim: on a collection with partition-key isolation, composition fails whenever
  the filter is not an equality on the partition key. \<^verbatim>\<open>setQueryInfoIfMvEnable\<close> reads the
  isolation flag from the collection's info; when that lookup fails, line 339 returns
  \<^verbatim>\<open>err\<close>, which is nil there, and not the lookup's \<^verbatim>\<open>colErr\<close>. So the composition goes on
  with the query info untouched. Below, the filter \<^verbatim>\<open>pk > 1\<close> is refused while the lookup
  answers (a collection with isolation), and the same single search and the same hybrid
  search compose with no error, no hint and no check of the filter when the lookup fails.
\<close>

theorem partitionKeyIsolation_lookup_error_dropped:
  "GetCollectionInfo example_pk_miss_env (DbName_req (request (example_pk_task ''pk > 1'')))
      (collectionName (example_pk_task ''pk > 1''))
      (CollectionID (SearchRequest (example_pk_task ''pk > 1'')))
     = Inl (Collaborator ''collection info not available'')
   \<and> (\<forall>qi plan. setQueryInfoIfMvEnable example_pk_miss_env qi (example_pk_task ''pk > 1'') plan
                   = Inr qi)
   \<and> \<not> isl (initSearchRequest example_pk_miss_env (example_pk_task ''pk > 1''))
   \<and> map Hints (queryInfos (projr (initSearchRequest example_pk_miss_env
                                      (example_pk_task ''pk > 1'')))) = [[]]
   \<and> map MaterializedViewInvolved (queryInfos (projr (initSearchRequest example_pk_miss_env
                                      (example_pk_task ''pk > 1'')))) = [False]
   \<and> initSearchRequest example_pk_env (example_pk_task ''pk > 1'')
       = Inl (Collaborator ''partition key isolation needs an equality on the partition key'')
   \<and> \<not> isl (initAdvancedSearchRequest example_pk_miss_env (example_pk_hybrid_task ''pk > 1''))
   \<and> map Hints (queryInfos (projr (initAdvancedSearchRequest example_pk_miss_env
                                      (example_pk_hybrid_task ''pk > 1'')))) = [[], []]
   \<and> initAdvancedSearchRequest example_pk_env (example_pk_hybrid_task ''pk > 1'')
       = Inl (Collaborator ''partition key isolation needs an equality on the partition key'')"
proof -
  let ?t = "example_pk_task ''pk > 1''"
  let ?h = "example_pk_hybrid_task ''pk > 1''"
  have 1: "GetCollectionInfo example_pk_miss_env (DbName_req (request ?t)) (collectionName ?t)
      (CollectionID (SearchRequest ?t)) = Inl (Collaborator ''collection info not available'')"
    by (simp add: example_pk_miss_env_def)
  have 2: "setQueryInfoIfMvEnable example_pk_miss_env qi ?t plan = Inr qi" for qi plan
    by (rule setQueryInfoIfMvEnable_lookup_error [where sch = example_schema
          and f = "\<lparr>Name = ''id'', FieldID = 100, DataType = 5\<rparr>"
          and colErr = "Collaborator ''collection info not available''"])
       (simp_all add: example_pk_task_def example_pk_miss_env_def example_pk_env_def
          example_env_def)
  have 3: "\<not> isl (initSearchRequest example_pk_miss_env ?t)"
    by code_simp
  have 4: "map Hints (queryInfos (projr (initSearchRequest example_pk_miss_env ?t))) = [[]]"
    by code_simp
  have 5: "map MaterializedViewInvolved
             (queryInfos (projr (initSearchRequest example_pk_miss_env ?t))) = [False]"
    by code_simp
  have 6: "initSearchRequest example_pk_env ?t
       = Inl (Collaborator ''partition key isolation needs an equality on the partition key'')"
    by code_simp
  have 7: "\<not> isl (initAdvancedSearchRequest example_pk_miss_env ?h)"
    by code_simp
  have 8: "map Hints (queryInfos (projr (initAdvancedSearchRequest example_pk_miss_env ?h)))
             = [[], []]"
    by code_simp
  have 9: "initAdvancedSearchRequest example_pk_env ?h
       = Inl (Collaborator ''partition key isolation needs an equality on the partition key'')"
    by code_simp
  from 1 2 3 4 5 6 7 8 9 show ?thesis by simp
qed

text \<open>
  C3 (amended). In the hybrid path (\<^verbatim>\<open>initAdvancedSearchRequest\<close>) \<^verbatim>\<open>needRequery\<close> is true
  exactly when the request's output fields are not empty or the function score names
  input fields. In the single-search path (\<^verbatim>\<open>initSearchRequest\<close>) it is true exactly when
  a vector-typed field of the schema is among the translated output fields, and then the
  serialised plan that the internal request carries (\<^verbatim>\<open>SerializedExprPlan\<close>) is the
  marshalled plan of the filter with the function score's input fields as its only output
  columns, together with the query info that the task records. That request is the
  outgoing one; when the schema has functions other than BM25 on the searched field it is
  the request handed to the function executor, whose result goes out.
\<close>

theorem needRequery_by_path:
  "(\<forall>t'. initAdvancedSearchRequest env t = Inr t' \<longrightarrow>
      (needRequery t' \<longleftrightarrow>
         OutputFields_req (request t) \<noteq> [] \<or> GetAllInputFieldNames env (functionScore t') \<noteq> []))
 \<and> (\<forall>t' sch. initSearchRequest env t = Inr t' \<and> schema t = Some sch \<longrightarrow>
      (needRequery t' \<longleftrightarrow>
         (\<exists>f \<in> set (Fields sch). Name f \<in> set (translatedOutputFields t)
                                 \<and> IsVectorType env (DataType f))))
 \<and> (\<forall>t' sch. initSearchRequest env t = Inr t' \<and> schema t = Some sch \<and> needRequery t' \<longrightarrow>
      (\<exists>plan qi off it qi' sr.
          tryGeneratePlan env t (SearchParams_req (request t)) (Dsl_req (request t))
            (ExprTemplateValues_req (request t)) = Inr (plan, qi, off, it)
        \<and> queryInfos t' = queryInfos t @ [qi']
        \<and> Marshal env (plan\<lparr>OutputFieldIds := GetAllInputFieldIDs env (functionScore t')\<rparr>) qi'
            = Inr (SerializedExprPlan sr)
        \<and> (if HasNonBM25Functions env (Functions sch) [QueryFieldId qi']
           then \<exists>exec. NewFunctionExecutor env sch = Inr exec
                     \<and> ProcessSearch env exec sr = Inr (SearchRequest t')
           else SearchRequest t' = sr)))"
proof (intro conjI allI impI)
  fix t'
  assume "initAdvancedSearchRequest env t = Inr t'"
  then obtain sch fscore rp t1 isubs qis ids where
    t1: "t1 = t\<lparr>partitionIDsSet := Some [], functionScore := fscore,
            needRequery := (length (OutputFields_req (request t)) > 0
                            \<or> length (GetAllInputFieldNames env fscore) > 0),
            rankParams := Some rp\<rparr>" and
    n: "needRequery t' = needRequery t1" and f: "functionScore t' = fscore"
    by (rule initAdvancedSearchRequest_Inr)
  from n f show "needRequery t' \<longleftrightarrow>
         OutputFields_req (request t) \<noteq> [] \<or> GetAllInputFieldNames env (functionScore t') \<noteq> []"
    by (simp add: t1)
next
  fix t' sch
  assume a: "initSearchRequest env t = Inr t' \<and> schema t = Some sch"
  then have i: "initSearchRequest env t = Inr t'" and s: "schema t = Some sch"
    by simp_all
  from i obtain plan qi off it sch' t2 qi' t3 requery plan' serialized t4 where
    s': "schema t = Some sch'" and
    t2: "\<exists>fs sr. t2 = t\<lparr>functionScore := fs, isIterator := it, SearchRequest := sr\<rparr>
        \<and> CollectionID sr = CollectionID (SearchRequest t)" and
    t3: "\<exists>sr. t3 = t2\<lparr>SearchRequest := sr\<rparr>" and
    o: "initSearchRequest_outputs env t3 sch' plan = Inr (requery, plan')" and
    t4: "\<exists>sr. t4 = t3\<lparr>needRequery := requery, queryInfos := queryInfos t3 @ [qi'],
                       SearchRequest := sr\<rparr>" and
    t': "t' = t4\<lparr>SearchRequest := SearchRequest t'\<rparr>"
    by (rule initSearchRequest_Inr)
  from s s' have sch: "sch' = sch" by simp
  from t2 t3 have tr: "translatedOutputFields t3 = translatedOutputFields t"
    by auto
  from t4 have "needRequery t4 = requery"
    by auto
  moreover have "needRequery t' = needRequery t4"
    by (subst t') simp
  ultimately have "needRequery t' = requery"
    by simp
  with initSearchRequest_outputs_Inr [OF o] tr sch
  show "needRequery t' \<longleftrightarrow>
         (\<exists>f \<in> set (Fields sch). Name f \<in> set (translatedOutputFields t)
                                 \<and> IsVectorType env (DataType f))"
    by simp
next
  fix t' sch
  assume a: "initSearchRequest env t = Inr t' \<and> schema t = Some sch \<and> needRequery t'"
  then have i: "initSearchRequest env t = Inr t'" and s: "schema t = Some sch"
    and n: "needRequery t'"
    by simp_all
  from i obtain plan qi off it sch' t2 qi' t3 requery plan' serialized t4 where
    p: "tryGeneratePlan env t (SearchParams_req (request t)) (Dsl_req (request t))
       (ExprTemplateValues_req (request t)) = Inr (plan, qi, off, it)" and
    s': "schema t = Some sch'" and
    t2: "\<exists>fs sr. t2 = t\<lparr>functionScore := fs, isIterator := it, SearchRequest := sr\<rparr>
        \<and> CollectionID sr = CollectionID (SearchRequest t)" and
    t3: "\<exists>sr. t3 = t2\<lparr>SearchRequest := sr\<rparr>" and
    o: "initSearchRequest_outputs env t3 sch' plan = Inr (requery, plan')" and
    m: "Marshal env plan' qi' = Inr serialized" and
    t4: "\<exists>sr. t4 = t3\<lparr>needRequery := requery, queryInfos := queryInfos t3 @ [qi'],
                       SearchRequest := sr\<rparr>" and
    t': "t' = t4\<lparr>SearchRequest := SearchRequest t'\<rparr>" and
    sp: "SerializedExprPlan (SearchRequest t4) = serialized" and
    c: "callFunctionExecutor env sch' [QueryFieldId qi'] t4 = Inr t'"
    by (rule initSearchRequest_Inr)
  from s s' have sch: "sch' = sch" by simp
  from t2 t3 have q3: "queryInfos t3 = queryInfos t"
    by auto
  from t4 have 4: "needRequery t4 = requery" "functionScore t4 = functionScore t3"
    "queryInfos t4 = queryInfos t3 @ [qi']"
    by auto
  have "needRequery t' = needRequery t4" "functionScore t' = functionScore t4"
    "queryInfos t' = queryInfos t4"
    by (subst t', simp)+
  with 4 n q3 have "requery" and fs: "functionScore t' = functionScore t3"
    and qs: "queryInfos t' = queryInfos t @ [qi']"
    by simp_all
  with initSearchRequest_outputs_Inr [OF o]
  have "plan' = plan\<lparr>OutputFieldIds := GetAllInputFieldIDs env (functionScore t')\<rparr>"
    by simp
  with m sp have mm: "Marshal env (plan\<lparr>OutputFieldIds := GetAllInputFieldIDs env (functionScore t')\<rparr>) qi'
            = Inr (SerializedExprPlan (SearchRequest t4))"
    by simp
  have e: "if HasNonBM25Functions env (Functions sch) [QueryFieldId qi']
           then \<exists>exec. NewFunctionExecutor env sch = Inr exec
                     \<and> ProcessSearch env exec (SearchRequest t4) = Inr (SearchRequest t')
           else SearchRequest t' = SearchRequest t4"
    using c sch
    by (auto simp add: callFunctionExecutor_def split: if_splits sum.splits)
  from p qs mm e
  show "\<exists>plan qi off it qi' sr.
          tryGeneratePlan env t (SearchParams_req (request t)) (Dsl_req (request t))
            (ExprTemplateValues_req (request t)) = Inr (plan, qi, off, it)
        \<and> queryInfos t' = queryInfos t @ [qi']
        \<and> Marshal env (plan\<lparr>OutputFieldIds := GetAllInputFieldIDs env (functionScore t')\<rparr>) qi'
            = Inr (SerializedExprPlan sr)
        \<and> (if HasNonBM25Functions env (Functions sch) [QueryFieldId qi']
           then \<exists>exec. NewFunctionExecutor env sch = Inr exec
                     \<and> ProcessSearch env exec sr = Inr (SearchRequest t')
           else SearchRequest t' = sr)"
    by blast
qed

text \<open>
  The claim as written fails in the single-search path: a search that asks for the scalar
  field \<^verbatim>\<open>title\<close> passes \<^verbatim>\<open>PreExecute\<close> with \<^verbatim>\<open>needRequery\<close> false.
\<close>

theorem needRequery_by_path_counterexample:
  "\<not> isl (PreExecute example_env example_output_task)
   \<and> OutputFields_req (request example_output_task) = [''title'']
   \<and> \<not> needRequery (projr (PreExecute example_env example_output_task))"
proof -
  have "\<not> isl (PreExecute example_env example_output_task)"
    by code_simp
  moreover have "OutputFields_req (request example_output_task) = [''title'']"
    by (simp add: example_output_task_def)
  moreover have "\<not> needRequery (projr (PreExecute example_env example_output_task))"
    by code_simp
  ultimately show ?thesis by simp
qed

theorem needRequery_by_path_witness:
  "needRequery (projr (initAdvancedSearchRequest example_score_env
      (example_hybrid_task\<lparr>schema := Some example_schema,
         request := (request example_hybrid_task)\<lparr>OutputFields_req := [''title'']\<rparr>\<rparr>)))
   \<and> needRequery (projr (initSearchRequest example_score_env
      (example_task\<lparr>schema := Some example_schema, translatedOutputFields := [''vec'']\<rparr>)))
   \<and> SerializedExprPlan (SearchRequest (projr (initSearchRequest example_score_env
      (example_task\<lparr>schema := Some example_schema, translatedOutputFields := [''vec'']\<rparr>)))) = [101]
   \<and> \<not> needRequery (projr (initSearchRequest example_score_env
      (example_task\<lparr>schema := Some example_schema, translatedOutputFields := [''title'']\<rparr>)))"
proof -
  let ?E = "example_score_env"
  let ?A = "example_hybrid_task\<lparr>schema := Some example_schema,
         request := (request example_hybrid_task)\<lparr>OutputFields_req := [''title'']\<rparr>\<rparr>"
  let ?B = "example_task\<lparr>schema := Some example_schema, translatedOutputFields := [''vec'']\<rparr>"
  let ?C = "example_task\<lparr>schema := Some example_schema, translatedOutputFields := [''title'']\<rparr>"
  let ?b = "projr (initSearchRequest ?E ?B)"
  have "\<not> isl (initAdvancedSearchRequest ?E ?A)" by code_simp
  then have a: "initAdvancedSearchRequest ?E ?A
      = Inr (projr (initAdvancedSearchRequest ?E ?A))"
    by (rule Inr_projr)
  have "\<not> isl (initSearchRequest ?E ?B)" by code_simp
  then have b: "initSearchRequest ?E ?B = Inr ?b"
    by (rule Inr_projr)
  have "\<not> isl (initSearchRequest ?E ?C)" by code_simp
  then have c: "initSearchRequest ?E ?C = Inr (projr (initSearchRequest ?E ?C))"
    by (rule Inr_projr)
  have oa: "OutputFields_req (request ?A) \<noteq> []"
    by simp
  have sb: "schema ?B = Some example_schema" and sc: "schema ?C = Some example_schema"
    by simp_all
  have vb: "\<exists>f \<in> set (Fields example_schema). Name f \<in> set (translatedOutputFields ?B)
                                 \<and> IsVectorType ?E (DataType f)"
    by (simp add: example_schema_def example_env_def example_score_env_def)
  have vc: "\<not> (\<exists>f \<in> set (Fields example_schema). Name f \<in> set (translatedOutputFields ?C)
                                 \<and> IsVectorType ?E (DataType f))"
    by (simp add: example_schema_def example_env_def example_score_env_def)
  from needRequery_by_path [of ?E ?A] a oa
  have 1: "needRequery (projr (initAdvancedSearchRequest ?E ?A))"
    by blast
  from needRequery_by_path [of ?E ?B] b sb vb
  have 2: "needRequery ?b"
    by blast
  from needRequery_by_path [of ?E ?C] c sc vc
  have 3: "\<not> needRequery (projr (initSearchRequest ?E ?C))"
    by blast
  from needRequery_by_path [of ?E ?B] b sb 2 obtain plan qi off it qi' sr where
    m: "Marshal ?E (plan\<lparr>OutputFieldIds := GetAllInputFieldIDs ?E (functionScore ?b)\<rparr>) qi'
            = Inr (SerializedExprPlan sr)" and
    e: "if HasNonBM25Functions ?E (Functions example_schema) [QueryFieldId qi']
           then \<exists>exec. NewFunctionExecutor ?E example_schema = Inr exec
                     \<and> ProcessSearch ?E exec sr = Inr (SearchRequest ?b)
           else SearchRequest ?b = sr"
    by blast
  from e have "SearchRequest ?b = sr"
    by (simp add: example_env_def example_score_env_def)
  with m have 4: "SerializedExprPlan (SearchRequest ?b) = [101]"
    by (simp add: example_env_def example_score_env_def)
  from 1 2 3 4 show ?thesis by simp
qed

subsection \<open>checkNq\<close>

text \<open>
  C2. The claim: an advanced search either gets one \<open>nq\<close> shared by every leg, or fails
  before any shard is contacted. The loop of \<^verbatim>\<open>checkNq\<close> takes \<open>nq = 0\<close> for "not yet
  known", so a leg whose own \<open>nq\<close> is 0 is accepted while no leg before it had another
  value, and a later leg sets \<open>nq\<close>. On the request below (top-level \<open>nq\<close> 0, a first leg
  with no query vector, a second leg with five) \<^verbatim>\<open>PreExecute\<close> succeeds with \<open>nq = 5\<close>
  and outgoing legs that carry 0 and 5.
\<close>

theorem checkNq_zero_leg_accepted:
  "\<not> isl (PreExecute example_env example_hybrid_task)
   \<and> Nq (SearchRequest (projr (PreExecute example_env example_hybrid_task))) = 5
   \<and> map Nq_isub (SubReqs (SearchRequest (projr (PreExecute example_env example_hybrid_task))))
       = [0, 5]"
proof -
  have "\<not> isl (PreExecute example_env example_hybrid_task)"
    by code_simp
  moreover have "Nq (SearchRequest (projr (PreExecute example_env example_hybrid_task))) = 5"
    by code_simp
  moreover have
    "map Nq_isub (SubReqs (SearchRequest (projr (PreExecute example_env example_hybrid_task))))
       = [0, 5]"
    by code_simp
  ultimately show ?thesis by simp
qed

lemma checkNq_loop_legs:
  assumes "checkNq_loop env nq reqs = Inr (nq', reqs')"
  shows "(\<forall>r \<in> set reqs'. Nq_sub r = nq' \<or> Nq_sub r = 0) \<and> (nq \<noteq> 0 \<longrightarrow> nq' = nq)
       \<and> list_all2 (\<lambda>r r'. getNqFromSubSearch env r = Inr (Nq_sub r')) reqs reqs'"
  using assms
proof (induction reqs arbitrary: nq reqs')
  case Nil
  then show ?case by simp
next
  case (Cons req rest)
  from Cons.prems obtain subNq where s: "getNqFromSubSearch env req = Inr subNq"
    by (cases "getNqFromSubSearch env req") auto
  show ?case
  proof (cases "nq = 0")
    case True
    with Cons.prems s obtain rest' where
      r: "checkNq_loop env subNq rest = Inr (nq', rest')" and
      e: "reqs' = req\<lparr>Nq_sub := subNq\<rparr> # rest'"
      by (cases "checkNq_loop env subNq rest") auto
    from Cons.IH [OF r] True s e show ?thesis
      by auto
  next
    case False
    with Cons.prems s have q: "subNq = nq"
      by (auto split: if_splits)
    with False Cons.prems s obtain rest' where
      r: "checkNq_loop env nq rest = Inr (nq', rest')" and
      e: "reqs' = req\<lparr>Nq_sub := subNq\<rparr> # rest'"
      by (cases "checkNq_loop env nq rest") auto
    from Cons.IH [OF r] False s e q show ?thesis
      by auto
  qed
qed

text \<open>
  What \<^verbatim>\<open>checkNq\<close> does establish for an advanced search: every leg carries the \<open>nq\<close> it
  returns, or 0.
\<close>

theorem checkNq_nonzero_legs_share_nq:
  assumes "checkNq env t = Inr (nq, t')" and "IsAdvanced (SearchRequest t)"
  shows "\<forall>r \<in> set (SubReqs_req (request t')). Nq_sub r = nq \<or> Nq_sub r = 0"
proof -
  from assms obtain reqs where
    l: "checkNq_loop env (Nq_req (request t)) (SubReqs_req (request t)) = Inr (nq, reqs)" and
    t': "SubReqs_req (request t') = reqs"
    by (auto simp add: checkNq_def split: sum.splits option.splits)
  from checkNq_loop_legs [OF l] t' show ?thesis
    by simp
qed

theorem checkNq_nonzero_legs_share_nq_witness:
  "\<not> isl (checkNq example_env
      (example_hybrid_task\<lparr>SearchRequest := example_SearchRequest\<lparr>IsAdvanced := True\<rparr>\<rparr>))
   \<and> list_all (\<lambda>r. Nq_sub r = 5 \<or> Nq_sub r = 0)
        (SubReqs_req (request (snd (projr (checkNq example_env
           (example_hybrid_task\<lparr>SearchRequest := example_SearchRequest\<lparr>IsAdvanced := True\<rparr>\<rparr>))))))"
proof -
  let ?t = "example_hybrid_task\<lparr>SearchRequest := example_SearchRequest\<lparr>IsAdvanced := True\<rparr>\<rparr>"
  have ok: "\<not> isl (checkNq example_env ?t)"
    by code_simp
  then have e: "checkNq example_env ?t
      = Inr (fst (projr (checkNq example_env ?t)), snd (projr (checkNq example_env ?t)))"
    by (rule Inr_projr_pair)
  have a: "IsAdvanced (SearchRequest ?t)"
    by simp
  have n: "fst (projr (checkNq example_env ?t)) = 5"
    by code_simp
  from checkNq_nonzero_legs_share_nq [OF e a] n ok show ?thesis
    by (simp add: list_all_iff)
qed

end
